theory Spec2Isabelle
  imports Complex_Main
begin

section \<open>Numbers and truthiness\<close>

text \<open>
  The cropper is written in TypeScript; every size, coordinate and ratio is a JavaScript
  \<^verbatim>\<open>number\<close>. What the engine is given (option values, image sizes, the displayed
  size, the crop rectangle) are finite numbers, modelled as reals, and the quarter-turn
  counts \<^verbatim>\<open>canvasRotation\<close> and \<^verbatim>\<open>exifTransform.rotate\<close> as integers. What the engine
  computes for its scaled sizes may be \<^verbatim>\<open>Infinity\<close>, \<^verbatim>\<open>-Infinity\<close> or \<^verbatim>\<open>NaN\<close>, since
  it divides by sizes and ratios that may be zero: these are values of the type
  \<open>number\<close> below, with the arithmetic of JavaScript on them. The arithmetic on finite
  values is exact (the rounding and the overflow of doubles are not modelled) and there is
  one zero, the positive one. Where the code compares a quotient of reals, the model
  writes the zero divisor out. The position stays a record of reals: what
  \<^verbatim>\<open>resizeCropperPosition\<close> computes from an old size of zero is not modelled, and its
  property below is for old sizes that are not zero.
\<close>

datatype number = Num real | PosInfinity | NegInfinity | NaN

fun js_div :: "number \<Rightarrow> number \<Rightarrow> number" where
  \<comment> \<open>\<^verbatim>\<open>a / b\<close>\<close>
  "js_div (Num a) (Num b) =
     (if b \<noteq> 0 then Num (a / b)
      else if a = 0 then NaN
      else if a > 0 then PosInfinity
      else NegInfinity)"
| "js_div (Num a) PosInfinity = Num 0"
| "js_div (Num a) NegInfinity = Num 0"
| "js_div PosInfinity (Num b) = (if b \<ge> 0 then PosInfinity else NegInfinity)"
| "js_div NegInfinity (Num b) = (if b \<ge> 0 then NegInfinity else PosInfinity)"
| "js_div _ _ = NaN"

fun js_mul :: "number \<Rightarrow> number \<Rightarrow> number" where
  \<comment> \<open>\<^verbatim>\<open>a * b\<close>\<close>
  "js_mul (Num a) (Num b) = Num (a * b)"
| "js_mul (Num a) PosInfinity =
     (if a = 0 then NaN else if a > 0 then PosInfinity else NegInfinity)"
| "js_mul (Num a) NegInfinity =
     (if a = 0 then NaN else if a > 0 then NegInfinity else PosInfinity)"
| "js_mul PosInfinity (Num b) =
     (if b = 0 then NaN else if b > 0 then PosInfinity else NegInfinity)"
| "js_mul NegInfinity (Num b) =
     (if b = 0 then NaN else if b > 0 then NegInfinity else PosInfinity)"
| "js_mul PosInfinity PosInfinity = PosInfinity"
| "js_mul PosInfinity NegInfinity = NegInfinity"
| "js_mul NegInfinity PosInfinity = NegInfinity"
| "js_mul NegInfinity NegInfinity = PosInfinity"
| "js_mul _ _ = NaN"

fun js_max :: "number \<Rightarrow> number \<Rightarrow> number" where
  \<comment> \<open>\<^verbatim>\<open>Math.max(a, b)\<close>: \<^verbatim>\<open>NaN\<close> as soon as an argument is\<close>
  "js_max NaN _ = NaN"
| "js_max _ NaN = NaN"
| "js_max PosInfinity _ = PosInfinity"
| "js_max _ PosInfinity = PosInfinity"
| "js_max NegInfinity b = b"
| "js_max a NegInfinity = a"
| "js_max (Num a) (Num b) = Num (max a b)"

fun js_gt :: "number \<Rightarrow> number \<Rightarrow> bool" where
  \<comment> \<open>\<^verbatim>\<open>a > b\<close>: false as soon as an operand is \<^verbatim>\<open>NaN\<close>\<close>
  "js_gt NaN _ = False"
| "js_gt _ NaN = False"
| "js_gt PosInfinity PosInfinity = False"
| "js_gt PosInfinity _ = True"
| "js_gt _ PosInfinity = False"
| "js_gt NegInfinity _ = False"
| "js_gt (Num a) NegInfinity = True"
| "js_gt (Num a) (Num b) = (a > b)"

declare js_div.simps [simp del] js_mul.simps [simp del] js_max.simps [simp del]
  js_gt.simps [simp del]

definition js_lt :: "number \<Rightarrow> number \<Rightarrow> bool" where
  \<comment> \<open>\<^verbatim>\<open>a < b\<close>\<close>
  "js_lt a b = js_gt b a"

definition js_ge :: "number \<Rightarrow> number \<Rightarrow> bool" where
  \<comment> \<open>\<^verbatim>\<open>a >= b\<close>\<close>
  "js_ge a b = (a \<noteq> NaN \<and> b \<noteq> NaN \<and> (a = b \<or> js_gt a b))"

definition truthy :: "real \<Rightarrow> bool" where
  \<comment> \<open>a number in a boolean position: every number but 0 is truthy\<close>
  "truthy v = (v \<noteq> 0)"

definition truthyKey :: "real option \<Rightarrow> bool" where
  \<comment> \<open>\<^verbatim>\<open>options['key']\<close> in a boolean position: an absent key reads \<^verbatim>\<open>undefined\<close>\<close>
  "truthyKey k = (case k of None \<Rightarrow> False | Some v \<Rightarrow> truthy v)"

definition truthyFlag :: "bool option \<Rightarrow> bool" where
  \<comment> \<open>an optional boolean in a boolean position\<close>
  "truthyFlag k = (case k of None \<Rightarrow> False | Some b \<Rightarrow> b)"

definition orElse :: "'a option \<Rightarrow> 'a \<Rightarrow> 'a" where
  \<comment> \<open>the nullish coalescing \<^verbatim>\<open>k ?? d\<close>\<close>
  "orElse k d = (case k of None \<Rightarrow> d | Some v \<Rightarrow> v)"

definition js_rem :: "int \<Rightarrow> int \<Rightarrow> int" where
  \<comment> \<open>the remainder \<^verbatim>\<open>a % b\<close> on integers, for \<open>b \<noteq> 0\<close>: it truncates, the sign is the dividend's\<close>
  "js_rem a b = sgn a * (\<bar>a\<bar> mod \<bar>b\<bar>)"

section \<open>Data model\<close>

record Dimensions =
  width :: real
  height :: real

record CropperPosition =
  x1 :: real
  y1 :: real
  x2 :: real
  y2 :: real

record ExifTransform =
  rotate_e :: int
  flip_e :: bool

text \<open>
  An \<^verbatim>\<open>HTMLImageElement\<close>: a handle that tells one bitmap from another, whether the
  element has finished loading, and the sizes the code reads from it.
\<close>

record HTMLImageElement =
  bitmap :: nat
  complete_i :: bool
  naturalWidth :: real
  naturalHeight :: real
  width_i :: real
  height_i :: real

record ImageVariant =
  objectUrl :: string
  image_v :: HTMLImageElement
  size_v :: Dimensions

record LoadedImage =
  original :: ImageVariant
  transformed :: ImageVariant
  exifTransform :: ExifTransform

text \<open>
  \<^verbatim>\<open>LoadImageOptions\<close> is declared outside the two source files. The loader reads five
  keys of it: \<^verbatim>\<open>canvasRotation\<close>, \<^verbatim>\<open>aspectRatio\<close> and \<^verbatim>\<open>format\<close> through \<^verbatim>\<open>??\<close>, so
  they may be absent, and \<^verbatim>\<open>containWithinAspectRatio\<close> and \<^verbatim>\<open>checkImageType\<close> in a
  boolean position.
\<close>

record LoadImageOptions =
  format_l :: "string option"
  checkImageType_l :: "bool option"
  canvasRotation_l :: "int option"
  containWithinAspectRatio_l :: "bool option"
  aspectRatio_l :: "real option"

text \<open>
  \<^verbatim>\<open>CropperOptions\<close>, with the keys and the types of the defaults the engine is created
  with. \<^verbatim>\<open>backgroundColor\<close> and \<^verbatim>\<open>cropperFrameAriaLabel\<close> start \<^verbatim>\<open>undefined\<close>.
\<close>

record CropperOptions =
  format :: string
  output_c :: string
  autoCrop :: bool
  maintainAspectRatio :: bool
  aspectRatio :: real
  resetCropOnAspectRatioChange :: bool
  resizeToWidth :: real
  resizeToHeight :: real
  cropperMinWidth :: real
  cropperMinHeight :: real
  cropperMaxHeight :: real
  cropperMaxWidth :: real
  cropperStaticWidth :: real
  cropperStaticHeight :: real
  canvasRotation :: int
  roundCropper :: bool
  onlyScaleDown :: bool
  imageQuality :: real
  backgroundColor :: "string option"
  containWithinAspectRatio :: bool
  hideResizeSquares :: bool
  alignImage :: string
  cropperFrameAriaLabel :: "string option"
  checkImageType :: bool

text \<open>
  A \<^verbatim>\<open>Partial<CropperOptions>\<close>: every key is absent (\<open>None\<close>) or present with a
  value of the key's type.
\<close>

record PartialOptions =
  format_p :: "string option"
  output_p :: "string option"
  autoCrop_p :: "bool option"
  maintainAspectRatio_p :: "bool option"
  aspectRatio_p :: "real option"
  resetCropOnAspectRatioChange_p :: "bool option"
  resizeToWidth_p :: "real option"
  resizeToHeight_p :: "real option"
  cropperMinWidth_p :: "real option"
  cropperMinHeight_p :: "real option"
  cropperMaxHeight_p :: "real option"
  cropperMaxWidth_p :: "real option"
  cropperStaticWidth_p :: "real option"
  cropperStaticHeight_p :: "real option"
  canvasRotation_p :: "int option"
  roundCropper_p :: "bool option"
  onlyScaleDown_p :: "bool option"
  imageQuality_p :: "real option"
  backgroundColor_p :: "string option option"
  containWithinAspectRatio_p :: "bool option"
  hideResizeSquares_p :: "bool option"
  alignImage_p :: "string option"
  cropperFrameAriaLabel_p :: "string option option"
  checkImageType_p :: "bool option"

text \<open>
  \<^verbatim>\<open>ImageTransform\<close> is declared outside the two source files; these are the keys the
  engine reads.
\<close>

record ImageTransform =
  scale_t :: "real option"
  rotate_t :: "real option"
  flipH :: "bool option"
  flipV :: "bool option"
  translateH :: "real option"
  translateV :: "real option"

record CropperState =
  cropper :: CropperPosition
  loadedImage :: "LoadedImage option"
  maxSize :: Dimensions
  transform :: ImageTransform
  options :: CropperOptions
  cropperScaledMinWidth :: number
  cropperScaledMinHeight :: number
  cropperScaledMaxWidth :: number
  cropperScaledMaxHeight :: number
  stepSize :: real

datatype error =
    ConfigurationError  \<comment> \<open>\<^verbatim>\<open>`aspectRatio` should > 0 when `maintainAspectRatio` is enabled\<close>\<close>
  | InvalidImageTypeError  \<comment> \<open>\<^verbatim>\<open>Invalid image type\<close>\<close>
  | NoImageLoaded  \<comment> \<open>\<^verbatim>\<open>No image loaded\<close>\<close>
  | RenderError  \<comment> \<open>\<^verbatim>\<open>Failed to get Blob for transformed image.\<close>\<close>
  | DecodeError  \<comment> \<open>the \<^verbatim>\<open>onerror\<close> of an image element\<close>
  | SvgError  \<comment> \<open>the two failures of \<^verbatim>\<open>getSvgImageSize\<close>\<close>

section \<open>The cropper state\<close>

definition defaultOptions :: CropperOptions where
  "defaultOptions =
    \<lparr>format = ''png'',
      output_c = ''blob'',
      autoCrop = True,
      maintainAspectRatio = True,
      aspectRatio = 1,
      resetCropOnAspectRatioChange = True,
      resizeToWidth = 0,
      resizeToHeight = 0,
      cropperMinWidth = 0,
      cropperMinHeight = 0,
      cropperMaxHeight = 0,
      cropperMaxWidth = 0,
      cropperStaticWidth = 0,
      cropperStaticHeight = 0,
      canvasRotation = 0,
      roundCropper = False,
      onlyScaleDown = False,
      imageQuality = 92,
      backgroundColor = None,
      containWithinAspectRatio = False,
      hideResizeSquares = False,
      alignImage = ''center'',
      cropperFrameAriaLabel = None,
      checkImageType = True\<rparr>"

definition initialState :: CropperState where
  \<comment> \<open>the field initialisers of the class\<close>
  "initialState =
    \<lparr>cropper = \<lparr>x1 = 0, y1 = 0, x2 = 0, y2 = 0\<rparr>,
      loadedImage = None,
      maxSize = \<lparr>width = 0, height = 0\<rparr>,
      transform = \<lparr>scale_t = None, rotate_t = None, flipH = None, flipV = None,
        translateH = None, translateV = None\<rparr>,
      options = defaultOptions,
      cropperScaledMinWidth = Num 20,
      cropperScaledMinHeight = Num 20,
      cropperScaledMaxWidth = Num 20,
      cropperScaledMaxHeight = Num 20,
      stepSize = 3\<rparr>"

definition noOptions :: PartialOptions where
  \<comment> \<open>the object \<^verbatim>\<open>{}\<close>\<close>
  "noOptions =
    \<lparr>format_p = None,
      output_p = None,
      autoCrop_p = None,
      maintainAspectRatio_p = None,
      aspectRatio_p = None,
      resetCropOnAspectRatioChange_p = None,
      resizeToWidth_p = None,
      resizeToHeight_p = None,
      cropperMinWidth_p = None,
      cropperMinHeight_p = None,
      cropperMaxHeight_p = None,
      cropperMaxWidth_p = None,
      cropperStaticWidth_p = None,
      cropperStaticHeight_p = None,
      canvasRotation_p = None,
      roundCropper_p = None,
      onlyScaleDown_p = None,
      imageQuality_p = None,
      backgroundColor_p = None,
      containWithinAspectRatio_p = None,
      hideResizeSquares_p = None,
      alignImage_p = None,
      cropperFrameAriaLabel_p = None,
      checkImageType_p = None\<rparr>"

definition mergeOptions :: "CropperOptions \<Rightarrow> PartialOptions \<Rightarrow> CropperOptions" where
  \<comment> \<open>the spread \<^verbatim>\<open>{...this.options, ...options}\<close>: a key of the update wins\<close>
  "mergeOptions current partial =
    \<lparr>format = orElse (format_p partial) (format current),
      output_c = orElse (output_p partial) (output_c current),
      autoCrop = orElse (autoCrop_p partial) (autoCrop current),
      maintainAspectRatio = orElse (maintainAspectRatio_p partial) (maintainAspectRatio current),
      aspectRatio = orElse (aspectRatio_p partial) (aspectRatio current),
      resetCropOnAspectRatioChange = orElse (resetCropOnAspectRatioChange_p partial) (resetCropOnAspectRatioChange current),
      resizeToWidth = orElse (resizeToWidth_p partial) (resizeToWidth current),
      resizeToHeight = orElse (resizeToHeight_p partial) (resizeToHeight current),
      cropperMinWidth = orElse (cropperMinWidth_p partial) (cropperMinWidth current),
      cropperMinHeight = orElse (cropperMinHeight_p partial) (cropperMinHeight current),
      cropperMaxHeight = orElse (cropperMaxHeight_p partial) (cropperMaxHeight current),
      cropperMaxWidth = orElse (cropperMaxWidth_p partial) (cropperMaxWidth current),
      cropperStaticWidth = orElse (cropperStaticWidth_p partial) (cropperStaticWidth current),
      cropperStaticHeight = orElse (cropperStaticHeight_p partial) (cropperStaticHeight current),
      canvasRotation = orElse (canvasRotation_p partial) (canvasRotation current),
      roundCropper = orElse (roundCropper_p partial) (roundCropper current),
      onlyScaleDown = orElse (onlyScaleDown_p partial) (onlyScaleDown current),
      imageQuality = orElse (imageQuality_p partial) (imageQuality current),
      backgroundColor = orElse (backgroundColor_p partial) (backgroundColor current),
      containWithinAspectRatio = orElse (containWithinAspectRatio_p partial) (containWithinAspectRatio current),
      hideResizeSquares = orElse (hideResizeSquares_p partial) (hideResizeSquares current),
      alignImage = orElse (alignImage_p partial) (alignImage current),
      cropperFrameAriaLabel = orElse (cropperFrameAriaLabel_p partial) (cropperFrameAriaLabel current),
      checkImageType = orElse (checkImageType_p partial) (checkImageType current)\<rparr>"

definition validateOptions :: "CropperState \<Rightarrow> error + unit" where
  "validateOptions s =
    (if maintainAspectRatio (options s) \<and> \<not> truthy (aspectRatio (options s))
     then Inl ConfigurationError
     else Inr ())"

text \<open>
  The two setters below read \<^verbatim>\<open>this.loadedImage!\<close>. \<open>setCropperScaledMinSize\<close>, their
  only caller, holds an image when it calls them; without one the read is a
  \<^verbatim>\<open>TypeError\<close> before the assignment, and the state stays as it is.
\<close>

definition setCropperScaledMinWidth :: "CropperState \<Rightarrow> CropperState" where
  "setCropperScaledMinWidth s =
    (if cropperMinWidth (options s) > 0 then
       (case loadedImage s of
          Some img \<Rightarrow>
            s\<lparr>cropperScaledMinWidth :=
              js_max (Num 20)
                (js_mul (js_div (Num (cropperMinWidth (options s)))
                                (Num (width (size_v (transformed img)))))
                        (Num (width (maxSize s))))\<rparr>
        | None \<Rightarrow> s)
     else s\<lparr>cropperScaledMinWidth := Num 20\<rparr>)"

definition setCropperScaledMinHeight :: "CropperState \<Rightarrow> CropperState" where
  "setCropperScaledMinHeight s =
    (if maintainAspectRatio (options s) then
       s\<lparr>cropperScaledMinHeight :=
         js_max (Num 20) (js_div (cropperScaledMinWidth s) (Num (aspectRatio (options s))))\<rparr>
     else if cropperMinHeight (options s) > 0 then
       (case loadedImage s of
          Some img \<Rightarrow>
            s\<lparr>cropperScaledMinHeight :=
              js_max (Num 20)
                (js_mul (js_div (Num (cropperMinHeight (options s)))
                                (Num (height (size_v (transformed img)))))
                        (Num (height (maxSize s))))\<rparr>
        | None \<Rightarrow> s)
     else
       s\<lparr>cropperScaledMinHeight := Num 20\<rparr>)"

definition setCropperScaledMinSize :: "CropperState \<Rightarrow> CropperState" where
  "setCropperScaledMinSize s =
    (case loadedImage s of
       Some img \<Rightarrow> setCropperScaledMinHeight (setCropperScaledMinWidth s)
     | None \<Rightarrow> s\<lparr>cropperScaledMinWidth := Num 20, cropperScaledMinHeight := Num 20\<rparr>)"

definition setCropperScaledMaxSize :: "CropperState \<Rightarrow> CropperState" where
  "setCropperScaledMaxSize s =
    (case loadedImage s of
       Some img \<Rightarrow>
         (let ratio = js_div (Num (width (size_v (transformed img)))) (Num (width (maxSize s)));
              s1 = s\<lparr>cropperScaledMaxWidth :=
                     (if cropperMaxWidth (options s) > 20
                      then js_div (Num (cropperMaxWidth (options s))) ratio
                      else Num (width (maxSize s)))\<rparr>;
              s2 = s1\<lparr>cropperScaledMaxHeight :=
                     (if cropperMaxHeight (options s1) > 20
                      then js_div (Num (cropperMaxHeight (options s1))) ratio
                      else Num (height (maxSize s1)))\<rparr>
          in if maintainAspectRatio (options s2) then
               (if js_gt (cropperScaledMaxWidth s2)
                     (js_mul (cropperScaledMaxHeight s2) (Num (aspectRatio (options s2)))) then
                  s2\<lparr>cropperScaledMaxWidth :=
                    js_mul (cropperScaledMaxHeight s2) (Num (aspectRatio (options s2)))\<rparr>
                else if js_lt (cropperScaledMaxWidth s2)
                     (js_mul (cropperScaledMaxHeight s2) (Num (aspectRatio (options s2)))) then
                  s2\<lparr>cropperScaledMaxHeight :=
                    js_div (cropperScaledMaxWidth s2) (Num (aspectRatio (options s2)))\<rparr>
                else s2)
             else s2)
     | None \<Rightarrow>
         s\<lparr>cropperScaledMaxWidth := Num (width (maxSize s)),
           cropperScaledMaxHeight := Num (height (maxSize s))\<rparr>)"

definition setMaxSize :: "real \<Rightarrow> real \<Rightarrow> CropperState \<Rightarrow> CropperState" where
  "setMaxSize w h s =
    setCropperScaledMaxSize
      (setCropperScaledMinSize (s\<lparr>maxSize := \<lparr>width = w, height = h\<rparr>\<rparr>))"

definition aspectRatioIsCorrect :: "CropperState \<Rightarrow> bool" where
  \<comment> \<open>with \<open>y2 = y1\<close> the quotient is \<^verbatim>\<open>Infinity\<close> or \<^verbatim>\<open>NaN\<close>, which \<^verbatim>\<open>===\<close> no ratio\<close>
  "aspectRatioIsCorrect s =
    (let localCropper = cropper s in
     y2 localCropper - y1 localCropper \<noteq> 0 \<and>
     (x2 localCropper - x1 localCropper) / (y2 localCropper - y1 localCropper)
       = aspectRatio (options s))"

definition resizeCropperPosition :: "Dimensions \<Rightarrow> CropperState \<Rightarrow> CropperState" where
  "resizeCropperPosition oldMaxSize s =
    (if width oldMaxSize \<noteq> width (maxSize s) \<or> height oldMaxSize \<noteq> height (maxSize s) then
       s\<lparr>cropper :=
         \<lparr>x1 = x1 (cropper s) * width (maxSize s) / width oldMaxSize,
           y1 = y1 (cropper s) * height (maxSize s) / height oldMaxSize,
           x2 = x2 (cropper s) * width (maxSize s) / width oldMaxSize,
           y2 = y2 (cropper s) * height (maxSize s) / height oldMaxSize\<rparr>\<rparr>
     else s)"

definition maxSizeCropperPosition :: "CropperState \<Rightarrow> CropperPosition" where
  "maxSizeCropperPosition s =
    \<lparr>x1 = 0, y1 = 0, x2 = width (maxSize s), y2 = height (maxSize s)\<rparr>"

text \<open>
  \<^verbatim>\<open>checkCropperPosition\<close> lives in \<^verbatim>\<open>utils/cropper-position.utils\<close>, outside the two
  source files: it is a parameter of \<open>setOptions\<close>. It is called with the current
  position, the engine and \<^verbatim>\<open>maintainSize = false\<close>.
\<close>

type_synonym CheckCropperPosition =
  "CropperPosition \<Rightarrow> CropperState \<Rightarrow> bool \<Rightarrow> CropperPosition"

definition imageComplete :: "CropperState \<Rightarrow> bool" where
  \<comment> \<open>\<^verbatim>\<open>this.loadedImage?.transformed.image.complete\<close>; the signal \<^verbatim>\<open>this.maxSize\<close> is an
      object, so \<^verbatim>\<open>!this.maxSize\<close> is never true\<close>
  "imageComplete s =
    (case loadedImage s of
       None \<Rightarrow> False
     | Some img \<Rightarrow> complete_i (image_v (transformed img)))"

text \<open>
  \<open>setOptions\<close> returns what the call did, \<open>Inl\<close> the exception it threw or \<open>Inr ()\<close>,
  together with the state the engine is left in.
\<close>

definition setOptions ::
  "CheckCropperPosition \<Rightarrow> PartialOptions \<Rightarrow> CropperState \<Rightarrow> (error + unit) \<times> CropperState" where
  "setOptions checkCropperPosition opts s0 =
    (let s = s0\<lparr>options := mergeOptions (options s0) opts\<rparr> in
     case validateOptions s of
       Inl e \<Rightarrow> (Inl e, s)
     | Inr _ \<Rightarrow>
         if \<not> imageComplete s then (Inr (), s)
         else
           (let (s', positionPossiblyChanged) =
              (if (maintainAspectRatio (options s) \<and> truthyKey (aspectRatio_p opts))
                  \<or> maintainAspectRatio_p opts \<noteq> None then
                 (let s1 = setCropperScaledMaxSize (setCropperScaledMinSize s) in
                  if maintainAspectRatio (options s1)
                     \<and> (resetCropOnAspectRatioChange (options s1) \<or> \<not> aspectRatioIsCorrect s1)
                  then (s1\<lparr>cropper := maxSizeCropperPosition s1\<rparr>, True)
                  else (s1, False))
               else
                 (let (s1, changed1) =
                        (if truthyKey (cropperMinWidth_p opts) \<or> truthyKey (cropperMinHeight_p opts)
                         then (setCropperScaledMinSize s, True) else (s, False));
                      (s2, changed2) =
                        (if truthyKey (cropperMaxWidth_p opts) \<or> truthyKey (cropperMaxHeight_p opts)
                         then (setCropperScaledMaxSize s1, True) else (s1, changed1));
                      changed3 =
                        (if truthyKey (cropperStaticWidth_p opts)
                            \<or> truthyKey (cropperStaticHeight_p opts)
                         then True else changed2)
                  in (s2, changed3)))
            in (Inr (),
                if positionPossiblyChanged
                then s'\<lparr>cropper := checkCropperPosition (cropper s') s' False\<rparr>
                else s')))"

text \<open>
  A loaded \<open>400 \<times> 400\<close> image that needed no transformation, and an engine that shows
  it at \<open>200 \<times> 200\<close> with the crop rectangle \<open>(50, 50, 150, 150)\<close>.
\<close>

definition exampleImage :: LoadedImage where
  "exampleImage =
    (let v = \<lparr>objectUrl = ''blob:original'',
               image_v = \<lparr>bitmap = 0, complete_i = True, naturalWidth = 400, naturalHeight = 400,
                          width_i = 400, height_i = 400\<rparr>,
               size_v = \<lparr>width = 400, height = 400\<rparr>\<rparr>
     in \<lparr>original = v, transformed = v, exifTransform = \<lparr>rotate_e = 0, flip_e = False\<rparr>\<rparr>)"

definition readyState :: CropperState where
  "readyState =
    initialState\<lparr>loadedImage := Some exampleImage,
      maxSize := \<lparr>width = 200, height = 200\<rparr>,
      cropper := \<lparr>x1 = 50, y1 = 50, x2 = 150, y2 = 150\<rparr>,
      cropperScaledMaxWidth := Num 200,
      cropperScaledMaxHeight := Num 200\<rparr>"

text \<open>
  An image whose transformed size is \<open>0 \<times> 0\<close>.
\<close>

definition zeroSizeImage :: LoadedImage where
  "zeroSizeImage =
    (let v = \<lparr>objectUrl = ''blob:empty'',
               image_v = \<lparr>bitmap = 0, complete_i = True, naturalWidth = 0, naturalHeight = 0,
                          width_i = 0, height_i = 0\<rparr>,
               size_v = \<lparr>width = 0, height = 0\<rparr>\<rparr>
     in \<lparr>original = v, transformed = v, exifTransform = \<lparr>rotate_e = 0, flip_e = False\<rparr>\<rparr>)"

section \<open>The transformed size\<close>

definition getTransformedSize :: "Dimensions \<Rightarrow> ExifTransform \<Rightarrow> LoadImageOptions \<Rightarrow> Dimensions" where
  "getTransformedSize originalSize exif opts =
    (let canvasRotation = orElse (canvasRotation_l opts) 0 + rotate_e exif in
     if truthyFlag (containWithinAspectRatio_l opts) then
       (if js_rem canvasRotation 2 \<noteq> 0 then
          (let minWidthToContain = width originalSize * orElse (aspectRatio_l opts) 1;
               minHeightToContain = height originalSize / orElse (aspectRatio_l opts) 1
           in \<lparr>width = max (height originalSize) minWidthToContain,
               height = max (width originalSize) minHeightToContain\<rparr>)
        else
          (let minWidthToContain = height originalSize * orElse (aspectRatio_l opts) 1;
               minHeightToContain = width originalSize / orElse (aspectRatio_l opts) 1
           in \<lparr>width = max (width originalSize) minWidthToContain,
               height = max (height originalSize) minHeightToContain\<rparr>))
     else if js_rem canvasRotation 2 \<noteq> 0 then
       \<lparr>width = height originalSize, height = width originalSize\<rparr>
     else
       \<lparr>width = width originalSize, height = height originalSize\<rparr>)"

section \<open>The image loader\<close>

text \<open>
  The loader works through the browser: it makes blobs and object URLs, lets an image
  element decode a URL, parses an SVG document for its size, and draws on a canvas that it
  then encodes. What the browser answers is a parameter of the model, and every function
  returns, with its result, the browser calls it made, in order. \<open>Inl\<close> is a rejected
  promise.
\<close>

type_synonym ArrayBuffer = "nat list"

record Blob =
  blobParts :: ArrayBuffer
  blobType :: string

text \<open>
  A \<^verbatim>\<open>File\<close> is made with a declared type, and its \<^verbatim>\<open>type\<close> attribute is what the
  File API makes of it: the empty string when a character lies outside U+0020 to U+007E,
  and otherwise the declared type with its letters in ASCII lower case. The loader sees
  \<^verbatim>\<open>file.type\<close> only.
\<close>

record File =
  fileBytes :: ArrayBuffer
  declaredType :: string

definition asciiLower :: "char \<Rightarrow> char" where
  "asciiLower c =
    (case map_of (zip ''ABCDEFGHIJKLMNOPQRSTUVWXYZ'' ''abcdefghijklmnopqrstuvwxyz'') c of
       Some l \<Rightarrow> l
     | None \<Rightarrow> c)"

definition printableAscii :: "char \<Rightarrow> bool" where
  "printableAscii c = (32 \<le> (of_char c :: nat) \<and> (of_char c :: nat) \<le> 126)"

definition fileType :: "File \<Rightarrow> string" where
  \<comment> \<open>\<^verbatim>\<open>file.type\<close>\<close>
  "fileType file =
    (if list_all printableAscii (declaredType file)
     then map asciiLower (declaredType file)
     else [])"

text \<open>
  What the loader does to the 2D context of a canvas: the six arguments of
  \<^verbatim>\<open>setTransform\<close>, the angle of \<^verbatim>\<open>rotate\<close> and the three arguments of \<^verbatim>\<open>drawImage\<close>.
  \<^verbatim>\<open>getContext('2d')\<close> may answer \<^verbatim>\<open>null\<close>; then nothing is drawn. The width and the
  height of a canvas are what the canvas reads after the assignment: the browser keeps
  them as unsigned integers, so a fractional size is not kept as it was assigned.
\<close>

record Drawing =
  setTransform :: "real \<times> real \<times> real \<times> real \<times> real \<times> real"
  rotate_c :: real
  drawImage :: "HTMLImageElement \<times> real \<times> real"

record Canvas =
  canvasWidth :: real
  canvasHeight :: real
  context2d :: "Drawing option"

datatype event =
    CreateObjectURL Blob
  | ParseSvg Blob
  | LoadImage string  \<comment> \<open>an image element is given the URL to decode\<close>
  | ToBlob Canvas string  \<comment> \<open>a canvas is encoded\<close>

text \<open>
  \<^verbatim>\<open>getSvgImageSize\<close> reads the document through the DOM, and
  \<^verbatim>\<open>getTransformationsFromExifData\<close> and \<^verbatim>\<open>supportsAutomaticRotation\<close> live in
  \<^verbatim>\<open>utils/exif.utils\<close>, outside the two source files: the three are taken as the browser
  answers them. \<^verbatim>\<open>getTransformationsFromExifData\<close> is called with \<open>None\<close> for \<open>-1\<close>.
  \<open>setCanvasWidth\<close> and \<open>setCanvasHeight\<close> give what \<^verbatim>\<open>canvas.width\<close> and
  \<^verbatim>\<open>canvas.height\<close> read after a number was assigned to them.
\<close>

record Browser =
  createObjectURL :: "Blob \<Rightarrow> string"
  loadImage :: "string \<Rightarrow> error + HTMLImageElement"
  getSvgImageSize :: "Blob \<Rightarrow> error + Dimensions option"
  setCanvasWidth :: "real \<Rightarrow> real"
  setCanvasHeight :: "real \<Rightarrow> real"
  getContext2d :: bool
  toBlob :: "Canvas \<Rightarrow> string \<Rightarrow> Blob option"
  autoRotateSupported :: bool
  getTransformationsFromExifData :: "ArrayBuffer option \<Rightarrow> ExifTransform"

record LoadImageArrayBuffer =
  originalImage :: HTMLImageElement
  originalArrayBuffer :: ArrayBuffer
  originalObjectUrl :: string
  originalImageSize :: "Dimensions option"

text \<open>
  The \<^verbatim>\<open>Partial<LoadedImage>\<close> that \<^verbatim>\<open>transformLoadedImage\<close> takes: it reads
  \<^verbatim>\<open>original!\<close> and \<^verbatim>\<open>exifTransform!\<close> only.
\<close>

record PartialLoadedImage =
  original_pl :: ImageVariant
  exifTransform_pl :: ExifTransform

subsection \<open>The type check\<close>

text \<open>
  The pattern
  \<^verbatim>\<open>/image\/(png|jpg|jpeg|heic|bmp|gif|tiff|svg|webp|x-icon|vnd.microsoft.icon)/\<close>
  has no flag and no anchor: \<^verbatim>\<open>test\<close> looks for a match at every index of the string,
  letters match in their own case only, and each \<^verbatim>\<open>.\<close> matches any character but a
  line terminator. A pattern without \<^verbatim>\<open>*\<close> is a list of alternatives, each a list of
  atoms.
\<close>

datatype atom = Lit char | AnyChar

fun atomMatches :: "atom \<Rightarrow> char \<Rightarrow> bool" where
  "atomMatches (Lit a) c = (c = a)"
| "atomMatches AnyChar c = (c \<noteq> CHR 0x0A \<and> c \<noteq> CHR 0x0D)"

fun matchesAt :: "atom list \<Rightarrow> string \<Rightarrow> bool" where
  \<comment> \<open>the atoms match the string from its start\<close>
  "matchesAt [] cs = True"
| "matchesAt (a # as) [] = False"
| "matchesAt (a # as) (c # cs) = (atomMatches a c \<and> matchesAt as cs)"

fun regexTest :: "atom list list \<Rightarrow> string \<Rightarrow> bool" where
  \<comment> \<open>\<^verbatim>\<open>RegExp.prototype.test\<close>: an alternative matches at some index\<close>
  "regexTest alts [] = list_ex (\<lambda>p. matchesAt p []) alts"
| "regexTest alts (c # cs) = (list_ex (\<lambda>p. matchesAt p (c # cs)) alts \<or> regexTest alts cs)"

definition literal :: "string \<Rightarrow> atom list" where
  "literal s = map Lit s"

definition imageTypePattern :: "atom list list" where
  "imageTypePattern =
    map (\<lambda>subtype. literal ''image/'' @ subtype)
      [literal ''png'', literal ''jpg'', literal ''jpeg'', literal ''heic'', literal ''bmp'',
       literal ''gif'', literal ''tiff'', literal ''svg'', literal ''webp'', literal ''x-icon'',
       literal ''vnd'' @ [AnyChar] @ literal ''microsoft'' @ [AnyChar] @ literal ''icon'']"

definition isValidImageType :: "string \<Rightarrow> bool" where
  "isValidImageType type = regexTest imageTypePattern type"

subsection \<open>Loading and transforming\<close>

definition logged :: "event list \<Rightarrow> 'a \<times> event list \<Rightarrow> 'a \<times> event list" where
  \<comment> \<open>the calls made before a callee's\<close>
  "logged before r = (fst r, before @ snd r)"

definition transformLoadedImage ::
  "Browser \<Rightarrow> PartialLoadedImage \<Rightarrow> LoadImageOptions \<Rightarrow> bool
     \<Rightarrow> (error + LoadedImage) \<times> event list" where
  "transformLoadedImage br loaded opts forceTransform =
    (let canvasRotation = orElse (canvasRotation_l opts) 0 + rotate_e (exifTransform_pl loaded);
         originalSize = size_v (original_pl loaded)
     in if \<not> forceTransform \<and> canvasRotation = 0 \<and> \<not> flip_e (exifTransform_pl loaded)
           \<and> \<not> truthyFlag (containWithinAspectRatio_l opts) then
          (Inr \<lparr>original =
                 \<lparr>objectUrl = objectUrl (original_pl loaded),
                  image_v = image_v (original_pl loaded),
                  size_v = originalSize\<rparr>,
               transformed =
                 \<lparr>objectUrl = objectUrl (original_pl loaded),
                  image_v = image_v (original_pl loaded),
                  size_v = originalSize\<rparr>,
               exifTransform = exifTransform_pl loaded\<rparr>, [])
        else
          (let transformedSize = getTransformedSize originalSize (exifTransform_pl loaded) opts;
               canvasW = setCanvasWidth br (width transformedSize);
               canvasH = setCanvasHeight br (height transformedSize);
               canvas =
                 \<lparr>canvasWidth = canvasW,
                  canvasHeight = canvasH,
                  context2d =
                    (if getContext2d br then
                       Some \<lparr>setTransform =
                               (if flip_e (exifTransform_pl loaded) then - 1 else 1, 0, 0, 1,
                                canvasW / 2, canvasH / 2),
                             rotate_c = pi * (of_int canvasRotation / 2),
                             drawImage =
                               (image_v (original_pl loaded),
                                - width originalSize / 2, - height originalSize / 2)\<rparr>
                     else None)\<rparr>;
               mime = ''image/'' @ orElse (format_l opts) ''png''
           in case toBlob br canvas mime of
                None \<Rightarrow> (Inl RenderError, [ToBlob canvas mime])
              | Some blob \<Rightarrow>
                  (let objectUrl' = createObjectURL br blob in
                   case loadImage br objectUrl' of
                     Inl e \<Rightarrow>
                       (Inl e, [ToBlob canvas mime, CreateObjectURL blob, LoadImage objectUrl'])
                   | Inr transformedImage \<Rightarrow>
                       (Inr \<lparr>original =
                              \<lparr>objectUrl = objectUrl (original_pl loaded),
                               image_v = image_v (original_pl loaded),
                               size_v = originalSize\<rparr>,
                            transformed =
                              \<lparr>objectUrl = objectUrl',
                               image_v = transformedImage,
                               size_v = \<lparr>width = width_i transformedImage,
                                         height = height_i transformedImage\<rparr>\<rparr>,
                            exifTransform = exifTransform_pl loaded\<rparr>,
                        [ToBlob canvas mime, CreateObjectURL blob, LoadImage objectUrl']))))"

definition transformImageFromArrayBuffer ::
  "Browser \<Rightarrow> LoadImageArrayBuffer \<Rightarrow> LoadImageOptions \<Rightarrow> bool
     \<Rightarrow> (error + LoadedImage) \<times> event list" where
  "transformImageFromArrayBuffer br res opts forceTransform =
    (let autoRotate = autoRotateSupported br;
         exif = getTransformationsFromExifData br
                  (if autoRotate then None else Some (originalArrayBuffer res))
     in if \<not> complete_i (originalImage res) then (Inl NoImageLoaded, [])
        else
          transformLoadedImage br
            \<lparr>original_pl =
               \<lparr>objectUrl = originalObjectUrl res,
                image_v = originalImage res,
                size_v = orElse (originalImageSize res)
                           \<lparr>width = naturalWidth (originalImage res),
                            height = naturalHeight (originalImage res)\<rparr>\<rparr>,
             exifTransform_pl = exif\<rparr>
            opts forceTransform)"

definition loadImageFromArrayBuffer ::
  "Browser \<Rightarrow> ArrayBuffer \<Rightarrow> LoadImageOptions \<Rightarrow> string option
     \<Rightarrow> (error + LoadedImage) \<times> event list" where
  "loadImageFromArrayBuffer br arrayBuffer opts imageType =
    (let blob = \<lparr>blobParts = arrayBuffer, blobType = orElse imageType []\<rparr>;
         objectUrl' = createObjectURL br blob;
         isSvg = (imageType = Some ''image/svg+xml'')
     in case (if isSvg then getSvgImageSize br blob else Inr None) of
          Inl e \<Rightarrow> (Inl e, [CreateObjectURL blob, ParseSvg blob])
        | Inr originalImageSize' \<Rightarrow>
            (let started = [CreateObjectURL blob] @ (if isSvg then [ParseSvg blob] else [])
                             @ [LoadImage objectUrl']
             in case loadImage br objectUrl' of
                  Inl e \<Rightarrow> (Inl e, started)
                | Inr originalImage' \<Rightarrow>
                    logged started
                      (transformImageFromArrayBuffer br
                         \<lparr>originalImage = originalImage',
                          originalArrayBuffer = arrayBuffer,
                          originalObjectUrl = objectUrl',
                          originalImageSize = originalImageSize'\<rparr>
                         opts (originalImageSize' \<noteq> None))))"

definition checkImageTypeAndLoadImageFromArrayBuffer ::
  "Browser \<Rightarrow> ArrayBuffer \<Rightarrow> string \<Rightarrow> LoadImageOptions
     \<Rightarrow> (error + LoadedImage) \<times> event list" where
  "checkImageTypeAndLoadImageFromArrayBuffer br arrayBuffer imageType opts =
    (if \<not> isValidImageType imageType then (Inl InvalidImageTypeError, [])
     else loadImageFromArrayBuffer br arrayBuffer opts (Some imageType))"

definition loadImageFile ::
  "Browser \<Rightarrow> File \<Rightarrow> LoadImageOptions \<Rightarrow> (error + LoadedImage) \<times> event list" where
  "loadImageFile br file opts =
    (let arrayBuffer = fileBytes file in
     if truthyFlag (checkImageType_l opts)
     then checkImageTypeAndLoadImageFromArrayBuffer br arrayBuffer (fileType file) opts
     else loadImageFromArrayBuffer br arrayBuffer opts None)"

text \<open>
  A browser in which every step succeeds: it supports automatic rotation, names an object
  URL after the type of its blob, keeps the whole part of a canvas size, and decodes every
  URL to a \<open>400 \<times> 400\<close> image.
\<close>

definition exampleBrowser :: Browser where
  "exampleBrowser =
    \<lparr>createObjectURL = (\<lambda>blob. ''blob:'' @ blobType blob),
     loadImage = (\<lambda>url. Inr \<lparr>bitmap = length url, complete_i = True,
                             naturalWidth = 400, naturalHeight = 400,
                             width_i = 400, height_i = 400\<rparr>),
     getSvgImageSize = (\<lambda>blob. Inr None),
     setCanvasWidth = (\<lambda>w. of_int \<lfloor>w\<rfloor>),
     setCanvasHeight = (\<lambda>h. of_int \<lfloor>h\<rfloor>),
     getContext2d = True,
     toBlob = (\<lambda>canvas mime. Some \<lparr>blobParts = [], blobType = mime\<rparr>),
     autoRotateSupported = True,
     getTransformationsFromExifData = (\<lambda>bytes. \<lparr>rotate_e = 0, flip_e = False\<rparr>)\<rparr>"

section \<open>Properties of the transformed size\<close>

lemma js_rem_2_odd: "js_rem a 2 \<noteq> 0 \<longleftrightarrow> odd a"
  unfolding js_rem_def by (simp add: sgn_if) presburger

text \<open>
  Claim C1. With \<^verbatim>\<open>containWithinAspectRatio\<close> set and a positive \<^verbatim>\<open>aspectRatio\<close>,
  \<^verbatim>\<open>getTransformedSize\<close> of an original size \<open>(w, h)\<close> is
  \<open>(max h (w * aspectRatio), max w (h / aspectRatio))\<close> when the effective rotation
  \<^verbatim>\<open>canvasRotation + exifTransform.rotate\<close> is odd and
  \<open>(max w (h * aspectRatio), max h (w / aspectRatio))\<close> when it is even; with
  \<^verbatim>\<open>containWithinAspectRatio\<close> not set it is \<open>(h, w)\<close> for an odd rotation and
  \<open>(w, h)\<close> for an even one.
\<close>

theorem getTransformedSize_spec:
  "(truthyFlag (containWithinAspectRatio_l opts) \<and> aspectRatio_l opts = Some ar \<and> 0 < ar \<longrightarrow>
      getTransformedSize \<lparr>width = w, height = h\<rparr> exif opts =
        (if odd (orElse (canvasRotation_l opts) 0 + rotate_e exif)
         then \<lparr>width = max h (w * ar), height = max w (h / ar)\<rparr>
         else \<lparr>width = max w (h * ar), height = max h (w / ar)\<rparr>)) \<and>
   (\<not> truthyFlag (containWithinAspectRatio_l opts) \<longrightarrow>
      getTransformedSize \<lparr>width = w, height = h\<rparr> exif opts =
        (if odd (orElse (canvasRotation_l opts) 0 + rotate_e exif)
         then \<lparr>width = h, height = w\<rparr>
         else \<lparr>width = w, height = h\<rparr>))"
  by (simp add: getTransformedSize_def js_rem_2_odd orElse_def)

theorem getTransformedSize_spec_witness:
  "getTransformedSize \<lparr>width = 100, height = 200\<rparr> \<lparr>rotate_e = 0, flip_e = False\<rparr>
      \<lparr>format_l = None, checkImageType_l = None, canvasRotation_l = Some 0,
       containWithinAspectRatio_l = Some True, aspectRatio_l = Some 1\<rparr>
     = \<lparr>width = 200, height = 200\<rparr> \<and>
   getTransformedSize \<lparr>width = 100, height = 200\<rparr> \<lparr>rotate_e = 3, flip_e = False\<rparr>
      \<lparr>format_l = None, checkImageType_l = None, canvasRotation_l = None,
       containWithinAspectRatio_l = Some True, aspectRatio_l = Some 2\<rparr>
     = \<lparr>width = 200, height = 100\<rparr> \<and>
   getTransformedSize \<lparr>width = 100, height = 200\<rparr> \<lparr>rotate_e = 0, flip_e = False\<rparr>
      \<lparr>format_l = None, checkImageType_l = None, canvasRotation_l = Some 1,
       containWithinAspectRatio_l = Some False, aspectRatio_l = None\<rparr>
     = \<lparr>width = 200, height = 100\<rparr>"
  using
    getTransformedSize_spec [of
      "\<lparr>format_l = None, checkImageType_l = None, canvasRotation_l = Some 0,
        containWithinAspectRatio_l = Some True, aspectRatio_l = Some 1\<rparr>"
      1 100 200 "\<lparr>rotate_e = 0, flip_e = False\<rparr>"]
    getTransformedSize_spec [of
      "\<lparr>format_l = None, checkImageType_l = None, canvasRotation_l = None,
        containWithinAspectRatio_l = Some True, aspectRatio_l = Some 2\<rparr>"
      2 100 200 "\<lparr>rotate_e = 3, flip_e = False\<rparr>"]
    getTransformedSize_spec [of
      "\<lparr>format_l = None, checkImageType_l = None, canvasRotation_l = Some 1,
        containWithinAspectRatio_l = Some False, aspectRatio_l = None\<rparr>"
      1 100 200 "\<lparr>rotate_e = 0, flip_e = False\<rparr>"]
  by (simp add: truthyFlag_def orElse_def)

section \<open>Properties of the cropper state\<close>

subsection \<open>Validation\<close>

lemma validateOptions_cases:
  "validateOptions s =
     (if maintainAspectRatio (options s) \<and> aspectRatio (options s) = 0
      then Inl ConfigurationError else Inr ())"
  by (simp add: validateOptions_def truthy_def)

lemma setOptions_throws_iff:
  "fst (setOptions chk opts s) = Inl ConfigurationError \<longleftrightarrow>
     maintainAspectRatio (mergeOptions (options s) opts) \<and>
     aspectRatio (mergeOptions (options s) opts) = 0"
  by (simp add: setOptions_def validateOptions_cases Let_def split_beta)

text \<open>
  Claim C3, as the code has it. When, after the merge, \<^verbatim>\<open>maintainAspectRatio\<close> is true
  and \<^verbatim>\<open>aspectRatio\<close> is zero, \<^verbatim>\<open>setOptions\<close> throws the configuration error after it
  has stored the merged options: the failed call leaves the engine with the merged
  options, and with the position, the maximum size, the image and the scaled sizes it
  had before.
\<close>

theorem setOptions_failure:
  "maintainAspectRatio (mergeOptions (options s) opts) \<and>
   aspectRatio (mergeOptions (options s) opts) = 0 \<longrightarrow>
     setOptions chk opts s
       = (Inl ConfigurationError, s\<lparr>options := mergeOptions (options s) opts\<rparr>)"
  by (simp add: setOptions_def validateOptions_cases)

theorem setOptions_failure_witness:
  "setOptions (\<lambda>c s m. c)
      (noOptions\<lparr>aspectRatio_p := Some 0, maintainAspectRatio_p := Some True\<rparr>) readyState
     = (Inl ConfigurationError, readyState\<lparr>options := defaultOptions\<lparr>aspectRatio := 0\<rparr>\<rparr>)"
  using setOptions_failure [of readyState
      "noOptions\<lparr>aspectRatio_p := Some 0, maintainAspectRatio_p := Some True\<rparr>" "\<lambda>c s m. c"]
  by (simp add: mergeOptions_def noOptions_def readyState_def initialState_def
      defaultOptions_def orElse_def)

text \<open>
  The claim as the specification words it fails: on a new engine,
  \<^verbatim>\<open>setOptions({aspectRatio: 0, maintainAspectRatio: true})\<close> throws, and the options
  afterwards are not the options before, their \<^verbatim>\<open>aspectRatio\<close> is 0 and no longer 1.
\<close>

theorem setOptions_failure_mutates:
  "fst (setOptions (\<lambda>c s m. c)
         (noOptions\<lparr>aspectRatio_p := Some 0, maintainAspectRatio_p := Some True\<rparr>) initialState)
     = Inl ConfigurationError \<and>
   options (snd (setOptions (\<lambda>c s m. c)
         (noOptions\<lparr>aspectRatio_p := Some 0, maintainAspectRatio_p := Some True\<rparr>) initialState))
     \<noteq> options initialState \<and>
   aspectRatio (options (snd (setOptions (\<lambda>c s m. c)
         (noOptions\<lparr>aspectRatio_p := Some 0, maintainAspectRatio_p := Some True\<rparr>) initialState)))
     = 0 \<and>
   aspectRatio (options initialState) = 1"
proof -
  let ?after = "snd (setOptions (\<lambda>c s m. c)
         (noOptions\<lparr>aspectRatio_p := Some 0, maintainAspectRatio_p := Some True\<rparr>) initialState)"
  have thrown: "fst (setOptions (\<lambda>c s m. c)
         (noOptions\<lparr>aspectRatio_p := Some 0, maintainAspectRatio_p := Some True\<rparr>) initialState)
     = Inl ConfigurationError"
    by (simp add: setOptions_def validateOptions_cases mergeOptions_def noOptions_def
        initialState_def defaultOptions_def orElse_def)
  have after: "aspectRatio (options ?after) = 0"
    by (simp add: setOptions_def validateOptions_cases mergeOptions_def noOptions_def
        initialState_def defaultOptions_def orElse_def)
  have before: "aspectRatio (options initialState) = 1"
    by (simp add: initialState_def defaultOptions_def)
  from after before have "options ?after \<noteq> options initialState"
    by auto
  with thrown after before show ?thesis
    by simp
qed

text \<open>
  Claim C4. The specification has \<^verbatim>\<open>setOptions\<close> fail whenever, after the merge,
  \<^verbatim>\<open>maintainAspectRatio\<close> is true and \<^verbatim>\<open>aspectRatio\<close> is not positive, which is what
  the message of the error asks for. The check of the code is \<^verbatim>\<open>!aspectRatio\<close>, and a
  negative number is truthy: on a new engine, where \<^verbatim>\<open>maintainAspectRatio\<close> is true,
  \<^verbatim>\<open>setOptions({aspectRatio: -1})\<close> returns normally and stores the ratio \<open>-1\<close>.
\<close>

theorem setOptions_negative_aspectRatio:
  "setOptions chk (noOptions\<lparr>aspectRatio_p := Some (- 1)\<rparr>) initialState
     = (Inr (), initialState\<lparr>options := defaultOptions\<lparr>aspectRatio := - 1\<rparr>\<rparr>)"
  by (simp add: setOptions_def validateOptions_cases mergeOptions_def noOptions_def
      initialState_def defaultOptions_def orElse_def imageComplete_def)

subsection \<open>What the recomputations leave alone\<close>

lemma imageComplete_options:
  "imageComplete (s\<lparr>options := opts\<rparr>) = imageComplete s"
  by (simp add: imageComplete_def)

lemma cropper_setCropperScaledMinSize [simp]:
  "cropper (setCropperScaledMinSize s) = cropper s"
  by (simp add: setCropperScaledMinSize_def setCropperScaledMinHeight_def
      setCropperScaledMinWidth_def split: option.splits)

lemma cropper_setCropperScaledMaxSize [simp]:
  "cropper (setCropperScaledMaxSize s) = cropper s"
  by (simp add: setCropperScaledMaxSize_def Let_def split: option.splits)

lemma options_setCropperScaledMinSize [simp]:
  "options (setCropperScaledMinSize s) = options s"
  by (simp add: setCropperScaledMinSize_def setCropperScaledMinHeight_def
      setCropperScaledMinWidth_def split: option.splits)

lemma options_setCropperScaledMaxSize [simp]:
  "options (setCropperScaledMaxSize s) = options s"
  by (simp add: setCropperScaledMaxSize_def Let_def split: option.splits)

lemma maxSize_setCropperScaledMinSize [simp]:
  "maxSize (setCropperScaledMinSize s) = maxSize s"
  by (simp add: setCropperScaledMinSize_def setCropperScaledMinHeight_def
      setCropperScaledMinWidth_def split: option.splits)

lemma maxSize_setCropperScaledMaxSize [simp]:
  "maxSize (setCropperScaledMaxSize s) = maxSize s"
  by (simp add: setCropperScaledMaxSize_def Let_def split: option.splits)

lemma readyState_simps:
  "imageComplete readyState"
  "maxSize readyState = \<lparr>width = 200, height = 200\<rparr>"
  "cropper readyState = \<lparr>x1 = 50, y1 = 50, x2 = 150, y2 = 150\<rparr>"
  "options readyState = defaultOptions"
  "loadedImage readyState = Some exampleImage"
  by (simp_all add: readyState_def initialState_def imageComplete_def exampleImage_def Let_def)

subsection \<open>The recomputed sizes\<close>

lemma setCropperScaledMinSize_Some:
  assumes "loadedImage s = Some img"
  shows "setCropperScaledMinSize s =
    (let minW = (if cropperMinWidth (options s) > 0
                 then js_max (Num 20)
                        (js_mul (js_div (Num (cropperMinWidth (options s)))
                                        (Num (width (size_v (transformed img)))))
                                (Num (width (maxSize s))))
                 else Num 20);
         minH = (if maintainAspectRatio (options s)
                 then js_max (Num 20) (js_div minW (Num (aspectRatio (options s))))
                 else if cropperMinHeight (options s) > 0
                 then js_max (Num 20)
                        (js_mul (js_div (Num (cropperMinHeight (options s)))
                                        (Num (height (size_v (transformed img)))))
                                (Num (height (maxSize s))))
                 else Num 20)
     in s\<lparr>cropperScaledMinWidth := minW, cropperScaledMinHeight := minH\<rparr>)"
  using assms
  by (simp add: setCropperScaledMinSize_def setCropperScaledMinHeight_def
      setCropperScaledMinWidth_def Let_def)


lemma js_ge_max_20: "r \<noteq> NaN \<Longrightarrow> js_ge (js_max (Num 20) r) (Num 20)"
  by (cases r) (auto simp: js_ge_def js_max.simps js_gt.simps max_def)

lemma js_max_20_cases:
  "r \<noteq> NaN \<Longrightarrow> js_max (Num 20) r = PosInfinity \<or> (\<exists>x \<ge> 20. js_max (Num 20) r = Num x)"
  by (cases r) (simp_all add: js_max.simps)

lemma js_mul_div_not_NaN:
  "0 < a \<Longrightarrow> b \<noteq> 0 \<or> c \<noteq> 0 \<Longrightarrow> js_mul (js_div (Num a) (Num b)) (Num c) \<noteq> NaN"
  by (auto simp: js_div.simps js_mul.simps)

lemma js_div_not_NaN:
  "r = PosInfinity \<or> (\<exists>x \<ge> 20. r = Num x) \<Longrightarrow> js_div r (Num c) \<noteq> NaN"
  by (auto simp: js_div.simps split: if_splits)

subsection \<open>The scaled minimum size\<close>

text \<open>
  Claim C7, as the code has it. With an image loaded, the scaled minimum width is
  \<^verbatim>\<open>Math.max(20, cropperMinWidth / transformedSize.width * maxSize.width)\<close> when
  \<^verbatim>\<open>cropperMinWidth\<close> is positive and 20 otherwise; the scaled minimum height is
  \<^verbatim>\<open>Math.max(20, scaledMinWidth / aspectRatio)\<close> when \<^verbatim>\<open>maintainAspectRatio\<close> is true,
  otherwise the formula of the width with \<^verbatim>\<open>cropperMinHeight\<close> and the heights when
  \<^verbatim>\<open>cropperMinHeight\<close> is positive, otherwise 20. Both are at least 20 provided the
  transformed width and the displayed width are not both zero, and the transformed height
  and the displayed height are not both zero. With no image loaded both are 20.
\<close>

theorem setCropperScaledMinSize_spec:
  "(loadedImage s = Some img \<longrightarrow>
      (let s' = setCropperScaledMinSize s;
           transformedSize = size_v (transformed img)
       in cropperScaledMinWidth s' =
            (if cropperMinWidth (options s) > 0
             then js_max (Num 20)
                    (js_mul (js_div (Num (cropperMinWidth (options s)))
                                    (Num (width transformedSize)))
                            (Num (width (maxSize s))))
             else Num 20) \<and>
          cropperScaledMinHeight s' =
            (if maintainAspectRatio (options s)
             then js_max (Num 20)
                    (js_div (cropperScaledMinWidth s') (Num (aspectRatio (options s))))
             else if cropperMinHeight (options s) > 0
             then js_max (Num 20)
                    (js_mul (js_div (Num (cropperMinHeight (options s)))
                                    (Num (height transformedSize)))
                            (Num (height (maxSize s))))
             else Num 20) \<and>
          ((width transformedSize \<noteq> 0 \<or> width (maxSize s) \<noteq> 0) \<and>
           (height transformedSize \<noteq> 0 \<or> height (maxSize s) \<noteq> 0) \<longrightarrow>
             js_ge (cropperScaledMinWidth s') (Num 20) \<and>
             js_ge (cropperScaledMinHeight s') (Num 20)))) \<and>
   (loadedImage s = None \<longrightarrow>
      cropperScaledMinWidth (setCropperScaledMinSize s) = Num 20 \<and>
      cropperScaledMinHeight (setCropperScaledMinSize s) = Num 20)"
proof (intro conjI impI)
  assume img: "loadedImage s = Some img"
  define tw where "tw = width (size_v (transformed img))"
  define th where "th = height (size_v (transformed img))"
  define minW where "minW = (if cropperMinWidth (options s) > 0
      then js_max (Num 20)
             (js_mul (js_div (Num (cropperMinWidth (options s))) (Num tw))
                     (Num (width (maxSize s))))
      else Num 20)"
  define minH where "minH = (if maintainAspectRatio (options s)
      then js_max (Num 20) (js_div minW (Num (aspectRatio (options s))))
      else if cropperMinHeight (options s) > 0
      then js_max (Num 20)
             (js_mul (js_div (Num (cropperMinHeight (options s))) (Num th))
                     (Num (height (maxSize s))))
      else Num 20)"
  have w: "cropperScaledMinWidth (setCropperScaledMinSize s) = minW"
    and h: "cropperScaledMinHeight (setCropperScaledMinSize s) = minH"
    by (simp_all add: setCropperScaledMinSize_Some [OF img] Let_def minW_def minH_def
        tw_def th_def)
  have bound: "js_ge minW (Num 20) \<and> js_ge minH (Num 20)"
    if nz: "(tw \<noteq> 0 \<or> width (maxSize s) \<noteq> 0) \<and> (th \<noteq> 0 \<or> height (maxSize s) \<noteq> 0)"
  proof -
    have wcases: "minW = PosInfinity \<or> (\<exists>x \<ge> 20. minW = Num x)"
    proof (cases "cropperMinWidth (options s) > 0")
      case True
      with nz have "js_mul (js_div (Num (cropperMinWidth (options s))) (Num tw))
          (Num (width (maxSize s))) \<noteq> NaN"
        by (intro js_mul_div_not_NaN) auto
      with True show ?thesis
        by (simp add: minW_def js_max_20_cases)
    next
      case False
      then show ?thesis by (simp add: minW_def)
    qed
    then have "minW \<noteq> NaN" by auto
    then have gew: "js_ge minW (Num 20)"
      using wcases by (auto simp: js_ge_def js_gt.simps)
    have "minH \<noteq> NaN \<and> (minH = PosInfinity \<or> (\<exists>x \<ge> 20. minH = Num x))"
    proof (cases "maintainAspectRatio (options s)")
      case True
      have "js_div minW (Num (aspectRatio (options s))) \<noteq> NaN"
        using wcases by (rule js_div_not_NaN)
      with True show ?thesis
        using js_max_20_cases [of "js_div minW (Num (aspectRatio (options s)))"]
        by (auto simp: minH_def)
    next
      case notMaintain: False
      show ?thesis
      proof (cases "cropperMinHeight (options s) > 0")
        case True
        with nz have "js_mul (js_div (Num (cropperMinHeight (options s))) (Num th))
            (Num (height (maxSize s))) \<noteq> NaN"
          by (intro js_mul_div_not_NaN) auto
        with True notMaintain show ?thesis
          using js_max_20_cases [of "js_mul (js_div (Num (cropperMinHeight (options s))) (Num th))
            (Num (height (maxSize s)))"]
          by (auto simp: minH_def)
      next
        case False
        with notMaintain show ?thesis by (simp add: minH_def)
      qed
    qed
    then have "js_ge minH (Num 20)"
      by (auto simp: js_ge_def js_gt.simps)
    with gew show ?thesis by simp
  qed
  show "let s' = setCropperScaledMinSize s;
           transformedSize = size_v (transformed img)
       in cropperScaledMinWidth s' =
            (if cropperMinWidth (options s) > 0
             then js_max (Num 20)
                    (js_mul (js_div (Num (cropperMinWidth (options s)))
                                    (Num (width transformedSize)))
                            (Num (width (maxSize s))))
             else Num 20) \<and>
          cropperScaledMinHeight s' =
            (if maintainAspectRatio (options s)
             then js_max (Num 20)
                    (js_div (cropperScaledMinWidth s') (Num (aspectRatio (options s))))
             else if cropperMinHeight (options s) > 0
             then js_max (Num 20)
                    (js_mul (js_div (Num (cropperMinHeight (options s)))
                                    (Num (height transformedSize)))
                            (Num (height (maxSize s))))
             else Num 20) \<and>
          ((width transformedSize \<noteq> 0 \<or> width (maxSize s) \<noteq> 0) \<and>
           (height transformedSize \<noteq> 0 \<or> height (maxSize s) \<noteq> 0) \<longrightarrow>
             js_ge (cropperScaledMinWidth s') (Num 20) \<and>
             js_ge (cropperScaledMinHeight s') (Num 20))"
    unfolding Let_def w h
    using bound by (simp add: minW_def minH_def tw_def th_def)
next
  assume "loadedImage s = None"
  then show "cropperScaledMinWidth (setCropperScaledMinSize s) = Num 20"
    by (simp add: setCropperScaledMinSize_def)
next
  assume "loadedImage s = None"
  then show "cropperScaledMinHeight (setCropperScaledMinSize s) = Num 20"
    by (simp add: setCropperScaledMinSize_def)
qed

theorem setCropperScaledMinSize_spec_witness:
  "cropperScaledMinWidth (setCropperScaledMinSize
      (readyState\<lparr>options := defaultOptions\<lparr>cropperMinWidth := 100\<rparr>\<rparr>)) = Num 50 \<and>
   cropperScaledMinHeight (setCropperScaledMinSize
      (readyState\<lparr>options := defaultOptions\<lparr>cropperMinWidth := 100\<rparr>\<rparr>)) = Num 50 \<and>
   js_ge (cropperScaledMinHeight (setCropperScaledMinSize
      (readyState\<lparr>options := defaultOptions\<lparr>cropperMinWidth := 100\<rparr>\<rparr>))) (Num 20) \<and>
   cropperScaledMinHeight (setCropperScaledMinSize
      (readyState\<lparr>options := defaultOptions\<lparr>aspectRatio := 0\<rparr>\<rparr>)) = PosInfinity \<and>
   cropperScaledMinWidth (setCropperScaledMinSize initialState) = Num 20 \<and>
   cropperScaledMinHeight (setCropperScaledMinSize initialState) = Num 20"
proof -
  define wide where "wide = readyState\<lparr>options := defaultOptions\<lparr>cropperMinWidth := 100\<rparr>\<rparr>"
  define flat where "flat = readyState\<lparr>options := defaultOptions\<lparr>aspectRatio := 0\<rparr>\<rparr>"
  have wide: "loadedImage wide = Some exampleImage" "maxSize wide = \<lparr>width = 200, height = 200\<rparr>"
    "options wide = defaultOptions\<lparr>cropperMinWidth := 100\<rparr>"
    by (simp_all add: wide_def readyState_simps)
  have flat: "loadedImage flat = Some exampleImage" "maxSize flat = \<lparr>width = 200, height = 200\<rparr>"
    "options flat = defaultOptions\<lparr>aspectRatio := 0\<rparr>"
    by (simp_all add: flat_def readyState_simps)
  have size: "size_v (transformed exampleImage) = \<lparr>width = 400, height = 400\<rparr>"
    by (simp add: exampleImage_def Let_def)
  note onWide = setCropperScaledMinSize_spec [of wide exampleImage, THEN conjunct1, THEN mp,
      OF wide(1), unfolded Let_def wide(2,3) size]
  note onFlat = setCropperScaledMinSize_spec [of flat exampleImage, THEN conjunct1, THEN mp,
      OF flat(1), unfolded Let_def flat(2,3) size]
  note onNew = setCropperScaledMinSize_spec [of initialState exampleImage, THEN conjunct2, THEN mp]
  from onWide [THEN conjunct1]
  have w: "cropperScaledMinWidth (setCropperScaledMinSize wide) = Num 50"
    by (simp add: defaultOptions_def js_div.simps js_mul.simps js_max.simps)
  from onWide [THEN conjunct2, THEN conjunct1]
  have h: "cropperScaledMinHeight (setCropperScaledMinSize wide) = Num 50"
    unfolding w by (simp add: defaultOptions_def js_div.simps js_max.simps)
  have "(width \<lparr>width = 400, height = 400\<rparr> \<noteq> 0 \<or> width \<lparr>width = 200, height = 200\<rparr> \<noteq> 0) \<and>
      (height \<lparr>width = 400, height = 400\<rparr> \<noteq> 0 \<or> height \<lparr>width = 200, height = 200\<rparr> \<noteq> 0)"
    by simp
  from onWide [THEN conjunct2, THEN conjunct2, THEN mp, OF this]
  have ge: "js_ge (cropperScaledMinHeight (setCropperScaledMinSize wide)) (Num 20)"
    by (rule conjunct2)
  from onFlat [THEN conjunct1]
  have w0: "cropperScaledMinWidth (setCropperScaledMinSize flat) = Num 20"
    by (simp add: defaultOptions_def)
  from onFlat [THEN conjunct2, THEN conjunct1]
  have inf: "cropperScaledMinHeight (setCropperScaledMinSize flat) = PosInfinity"
    unfolding w0 by (simp add: defaultOptions_def js_div.simps js_max.simps)
  have "loadedImage initialState = None"
    by (simp add: initialState_def)
  from onNew [OF this] w h ge inf show ?thesis
    by (simp add: wide_def flat_def)
qed

text \<open>
  Without the proviso the floor fails: for an image whose transformed size is
  \<open>0 \<times> 0\<close>, shown at the size \<open>0 \<times> 0\<close> the engine starts with, and
  \<^verbatim>\<open>cropperMinWidth = 100\<close>, the scaled minimum width is
  \<^verbatim>\<open>Math.max(20, 100 / 0 * 0)\<close>, which is \<^verbatim>\<open>NaN\<close> and not at least 20.
\<close>

theorem setCropperScaledMinSize_NaN:
  "cropperScaledMinWidth (setCropperScaledMinSize
      (initialState\<lparr>loadedImage := Some zeroSizeImage,
         options := defaultOptions\<lparr>cropperMinWidth := 100\<rparr>\<rparr>)) = NaN \<and>
   \<not> js_ge (cropperScaledMinWidth (setCropperScaledMinSize
      (initialState\<lparr>loadedImage := Some zeroSizeImage,
         options := defaultOptions\<lparr>cropperMinWidth := 100\<rparr>\<rparr>))) (Num 20)"
  by (simp add: setCropperScaledMinSize_def setCropperScaledMinHeight_def
      setCropperScaledMinWidth_def initialState_def defaultOptions_def zeroSizeImage_def
      Let_def js_div.simps js_mul.simps js_max.simps js_ge_def)

subsection \<open>Option updates with an image loaded\<close>






text \<open>
  Claim C10. With an image loaded, a successful \<^verbatim>\<open>setOptions\<close> whose update has no key
  \<^verbatim>\<open>maintainAspectRatio\<close>, no truthy \<^verbatim>\<open>aspectRatio\<close> while \<^verbatim>\<open>maintainAspectRatio\<close> is
  true, and no truthy \<^verbatim>\<open>cropperMinWidth\<close>, \<^verbatim>\<open>cropperMinHeight\<close>, \<^verbatim>\<open>cropperMaxWidth\<close>,
  \<^verbatim>\<open>cropperMaxHeight\<close>, \<^verbatim>\<open>cropperStaticWidth\<close> or \<^verbatim>\<open>cropperStaticHeight\<close>, changes the
  options and nothing else: the position and the four scaled sizes are as before.
\<close>

theorem setOptions_frame:
  "imageComplete s \<and>
   fst (setOptions chk opts s) = Inr () \<and>
   maintainAspectRatio_p opts = None \<and>
   \<not> (maintainAspectRatio (mergeOptions (options s) opts) \<and> truthyKey (aspectRatio_p opts)) \<and>
   \<not> truthyKey (cropperMinWidth_p opts) \<and> \<not> truthyKey (cropperMinHeight_p opts) \<and>
   \<not> truthyKey (cropperMaxWidth_p opts) \<and> \<not> truthyKey (cropperMaxHeight_p opts) \<and>
   \<not> truthyKey (cropperStaticWidth_p opts) \<and> \<not> truthyKey (cropperStaticHeight_p opts) \<longrightarrow>
   snd (setOptions chk opts s) = s\<lparr>options := mergeOptions (options s) opts\<rparr>"
  by (auto simp: setOptions_def Let_def split: sum.splits)


theorem setOptions_frame_witness:
  "snd (setOptions (\<lambda>c s m. c) (noOptions\<lparr>roundCropper_p := Some True\<rparr>) readyState)
     = readyState\<lparr>options := defaultOptions\<lparr>roundCropper := True\<rparr>\<rparr>"
proof -
  have a: "fst (setOptions (\<lambda>c s m. c) (noOptions\<lparr>roundCropper_p := Some True\<rparr>) readyState)
      = Inr ()"
    by (simp add: setOptions_def validateOptions_cases mergeOptions_def noOptions_def
        readyState_simps defaultOptions_def orElse_def imageComplete_options Let_def split_beta)
  show ?thesis
    using a setOptions_frame [of readyState "\<lambda>c s m. c" "noOptions\<lparr>roundCropper_p := Some True\<rparr>"]
    by (simp add: readyState_simps mergeOptions_def noOptions_def defaultOptions_def orElse_def
        truthyKey_def)
qed

subsection \<open>A new maximum size\<close>

text \<open>
  Claim C6, as the code has it. \<^verbatim>\<open>setMaxSize(w, h)\<close> replaces \<^verbatim>\<open>maxSize\<close> and
  recomputes the scaled minimum and maximum sizes; it leaves the position as it is.
  The position is rescaled by \<^verbatim>\<open>resizeCropperPosition(oldMaxSize)\<close>, a method of its own
  that the caller runs after \<^verbatim>\<open>setMaxSize\<close>: with an old maximum size
  \<open>(oldW, oldH)\<close>, both not zero, it takes the position \<open>(x1, y1, x2, y2)\<close> to
  \<open>(x1 * w / oldW, y1 * h / oldH, x2 * w / oldW, y2 * h / oldH)\<close>.
\<close>

theorem setMaxSize_spec:
  "maxSize s = \<lparr>width = oldW, height = oldH\<rparr> \<and> oldW \<noteq> 0 \<and> oldH \<noteq> 0 \<longrightarrow>
     (let s' = setMaxSize w h s;
          recomputed = setCropperScaledMaxSize
            (setCropperScaledMinSize (s\<lparr>maxSize := \<lparr>width = w, height = h\<rparr>\<rparr>))
      in maxSize s' = \<lparr>width = w, height = h\<rparr> \<and>
         cropperScaledMinWidth s' = cropperScaledMinWidth recomputed \<and>
         cropperScaledMinHeight s' = cropperScaledMinHeight recomputed \<and>
         cropperScaledMaxWidth s' = cropperScaledMaxWidth recomputed \<and>
         cropperScaledMaxHeight s' = cropperScaledMaxHeight recomputed \<and>
         cropper s' = cropper s \<and>
         cropper (resizeCropperPosition (maxSize s) s') =
           \<lparr>x1 = x1 (cropper s) * w / oldW, y1 = y1 (cropper s) * h / oldH,
            x2 = x2 (cropper s) * w / oldW, y2 = y2 (cropper s) * h / oldH\<rparr>)"
  by (auto simp: setMaxSize_def Let_def resizeCropperPosition_def)

theorem setMaxSize_spec_witness:
  "cropper (resizeCropperPosition (maxSize readyState) (setMaxSize 400 200 readyState))
     = \<lparr>x1 = 100, y1 = 50, x2 = 300, y2 = 150\<rparr> \<and>
   maxSize (setMaxSize 400 200 readyState) = \<lparr>width = 400, height = 200\<rparr>"
  using setMaxSize_spec [of readyState 200 200 400 200]
  by (simp add: readyState_def initialState_def Let_def)


text \<open>
  \<^verbatim>\<open>setMaxSize\<close> alone does not rescale: from the maximum size \<open>(200, 200)\<close> to
  \<open>(400, 200)\<close> the position \<open>(50, 50, 150, 150)\<close> stays \<open>(50, 50, 150, 150)\<close>.
\<close>

theorem setMaxSize_keeps_position:
  "cropper readyState = \<lparr>x1 = 50, y1 = 50, x2 = 150, y2 = 150\<rparr> \<and>
   maxSize readyState = \<lparr>width = 200, height = 200\<rparr> \<and>
   cropper (setMaxSize 400 200 readyState) = \<lparr>x1 = 50, y1 = 50, x2 = 150, y2 = 150\<rparr> \<and>
   cropper (setMaxSize 400 200 readyState) \<noteq> \<lparr>x1 = 100, y1 = 50, x2 = 300, y2 = 150\<rparr>"
  by (simp add: readyState_def initialState_def setMaxSize_def)

section \<open>Properties of the image loader\<close>

subsection \<open>What the pattern accepts\<close>

lemma matchesAt_iff:
  "matchesAt p cs \<longleftrightarrow> (\<exists>m suf. cs = m @ suf \<and> list_all2 atomMatches p m)"
proof (induction p cs rule: matchesAt.induct)
  case (1 cs)
  show ?case by simp
next
  case (2 a as)
  show ?case by simp
next
  case (3 a as c cs)
  show ?case
  proof
    assume "matchesAt (a # as) (c # cs)"
    then obtain m suf where "atomMatches a c" "cs = m @ suf" "list_all2 atomMatches as m"
      using 3 by auto
    then have "c # cs = (c # m) @ suf \<and> list_all2 atomMatches (a # as) (c # m)"
      by simp
    then show "\<exists>m suf. c # cs = m @ suf \<and> list_all2 atomMatches (a # as) m"
      by blast
  next
    assume "\<exists>m suf. c # cs = m @ suf \<and> list_all2 atomMatches (a # as) m"
    then obtain m suf where eq: "c # cs = m @ suf" and all: "list_all2 atomMatches (a # as) m"
      by blast
    from all obtain d m' where m: "m = d # m'" "atomMatches a d" "list_all2 atomMatches as m'"
      by (auto simp: list_all2_Cons1)
    with eq have "d = c" "cs = m' @ suf"
      by simp_all
    with m 3 show "matchesAt (a # as) (c # cs)"
      by auto
  qed
qed

lemma regexTest_iff:
  "regexTest alts cs \<longleftrightarrow> (\<exists>pre rest. cs = pre @ rest \<and> (\<exists>p \<in> set alts. matchesAt p rest))"
proof (induction cs)
  case Nil
  show ?case by (simp add: list_ex_iff)
next
  case (Cons c cs)
  show ?case
  proof
    assume "regexTest alts (c # cs)"
    then consider "\<exists>p \<in> set alts. matchesAt p (c # cs)" | "regexTest alts cs"
      by (auto simp: list_ex_iff)
    then show "\<exists>pre rest. c # cs = pre @ rest \<and> (\<exists>p \<in> set alts. matchesAt p rest)"
    proof cases
      case 1
      then have "c # cs = [] @ (c # cs) \<and> (\<exists>p \<in> set alts. matchesAt p (c # cs))"
        by simp
      then show ?thesis by blast
    next
      case 2
      then obtain pre rest where "cs = pre @ rest" "\<exists>p \<in> set alts. matchesAt p rest"
        using Cons by blast
      then have "c # cs = (c # pre) @ rest \<and> (\<exists>p \<in> set alts. matchesAt p rest)"
        by simp
      then show ?thesis by blast
    qed
  next
    assume "\<exists>pre rest. c # cs = pre @ rest \<and> (\<exists>p \<in> set alts. matchesAt p rest)"
    then obtain pre rest where eq: "c # cs = pre @ rest" and m: "\<exists>p \<in> set alts. matchesAt p rest"
      by blast
    show "regexTest alts (c # cs)"
    proof (cases pre)
      case Nil
      with eq m show ?thesis by (auto simp: list_ex_iff)
    next
      case (Cons d pre')
      with eq have "cs = pre' @ rest" by simp
      with m Cons.IH show ?thesis by auto
    qed
  qed
qed

lemma list_all2_literal: "list_all2 atomMatches (literal s) m \<longleftrightarrow> m = s"
  unfolding literal_def
proof (induction s arbitrary: m)
  case Nil
  show ?case by simp
next
  case (Cons c s)
  show ?case by (cases m) (auto simp: Cons.IH)
qed

lemma matchesAt_literal:
  "matchesAt (literal s) cs \<longleftrightarrow> (\<exists>suf. cs = s @ suf)"
  by (auto simp: matchesAt_iff list_all2_literal)

lemma matchesAt_append:
  "matchesAt (p @ q) cs \<longleftrightarrow>
     (\<exists>m rest. cs = m @ rest \<and> list_all2 atomMatches p m \<and> matchesAt q rest)"
proof (induction p cs rule: matchesAt.induct)
  case (1 cs)
  show ?case by simp
next
  case (2 a as)
  show ?case by simp
next
  case (3 a as c cs)
  show ?case
  proof
    assume "matchesAt ((a # as) @ q) (c # cs)"
    then obtain m rest where "atomMatches a c" "cs = m @ rest" "list_all2 atomMatches as m"
        "matchesAt q rest"
      using 3 by auto
    then have "c # cs = (c # m) @ rest \<and> list_all2 atomMatches (a # as) (c # m)
        \<and> matchesAt q rest"
      by simp
    then show "\<exists>m rest. c # cs = m @ rest \<and> list_all2 atomMatches (a # as) m \<and> matchesAt q rest"
      by blast
  next
    assume "\<exists>m rest. c # cs = m @ rest \<and> list_all2 atomMatches (a # as) m \<and> matchesAt q rest"
    then obtain m rest where eq: "c # cs = m @ rest"
      and all: "list_all2 atomMatches (a # as) m" and q: "matchesAt q rest"
      by blast
    from all obtain d m' where m: "m = d # m'" "atomMatches a d" "list_all2 atomMatches as m'"
      by (auto simp: list_all2_Cons1)
    with eq have "d = c" "cs = m' @ rest"
      by simp_all
    with m q 3 show "matchesAt ((a # as) @ q) (c # cs)"
      by auto
  qed
qed

lemma matchesAt_literal_append:
  "matchesAt (literal s @ q) cs \<longleftrightarrow> (\<exists>rest. cs = s @ rest \<and> matchesAt q rest)"
  by (auto simp: matchesAt_append list_all2_literal)

lemma matchesAt_AnyChar:
  "matchesAt (AnyChar # q) cs \<longleftrightarrow>
     (\<exists>a rest. cs = a # rest \<and> a \<noteq> CHR 0x0A \<and> a \<noteq> CHR 0x0D \<and> matchesAt q rest)"
  by (cases cs) auto

lemma subtype_alternatives:
  "(\<exists>p \<in> set [literal ''png'', literal ''jpg'', literal ''jpeg'', literal ''heic'',
       literal ''bmp'', literal ''gif'', literal ''tiff'', literal ''svg'', literal ''webp'',
       literal ''x-icon'',
       literal ''vnd'' @ [AnyChar] @ literal ''microsoft'' @ [AnyChar] @ literal ''icon''].
       matchesAt p r) \<longleftrightarrow>
   (\<exists>subtype suf. r = subtype @ suf \<and>
      (subtype \<in> set [''png'', ''jpg'', ''jpeg'', ''heic'', ''bmp'', ''gif'', ''tiff'', ''svg'',
                       ''webp'', ''x-icon''] \<or>
       (\<exists>a b. subtype = ''vnd'' @ [a] @ ''microsoft'' @ [b] @ ''icon'' \<and>
          a \<noteq> CHR 0x0A \<and> a \<noteq> CHR 0x0D \<and> b \<noteq> CHR 0x0A \<and> b \<noteq> CHR 0x0D)))"
  (is "?L \<longleftrightarrow> ?R")
proof
  assume ?L
  then consider s where
      "s \<in> set [''png'', ''jpg'', ''jpeg'', ''heic'', ''bmp'', ''gif'', ''tiff'', ''svg'',
                ''webp'', ''x-icon'']"
      "matchesAt (literal s) r"
    | "matchesAt
         (literal ''vnd'' @ [AnyChar] @ literal ''microsoft'' @ [AnyChar] @ literal ''icon'') r"
    by auto
  then show ?R
  proof cases
    case 1
    then obtain suf where "r = s @ suf"
      by (auto simp: matchesAt_literal)
    with 1(1) show ?thesis by blast
  next
    case 2
    then obtain a b suf where "r = ''vnd'' @ [a] @ ''microsoft'' @ [b] @ ''icon'' @ suf"
      "a \<noteq> CHR 0x0A" "a \<noteq> CHR 0x0D" "b \<noteq> CHR 0x0A" "b \<noteq> CHR 0x0D"
      by (auto simp: matchesAt_literal_append matchesAt_literal matchesAt_AnyChar)
    then have "r = (''vnd'' @ [a] @ ''microsoft'' @ [b] @ ''icon'') @ suf \<and>
       (\<exists>a' b'. ''vnd'' @ [a] @ ''microsoft'' @ [b] @ ''icon''
            = ''vnd'' @ [a'] @ ''microsoft'' @ [b'] @ ''icon'' \<and>
          a' \<noteq> CHR 0x0A \<and> a' \<noteq> CHR 0x0D \<and> b' \<noteq> CHR 0x0A \<and> b' \<noteq> CHR 0x0D)"
      by simp
    then show ?thesis by blast
  qed
next
  assume ?R
  then obtain subtype suf where r: "r = subtype @ suf"
    and c: "subtype \<in> set [''png'', ''jpg'', ''jpeg'', ''heic'', ''bmp'', ''gif'', ''tiff'',
                          ''svg'', ''webp'', ''x-icon''] \<or>
       (\<exists>a b. subtype = ''vnd'' @ [a] @ ''microsoft'' @ [b] @ ''icon'' \<and>
          a \<noteq> CHR 0x0A \<and> a \<noteq> CHR 0x0D \<and> b \<noteq> CHR 0x0A \<and> b \<noteq> CHR 0x0D)"
    by blast
  from c show ?L
  proof
    assume "subtype \<in> set [''png'', ''jpg'', ''jpeg'', ''heic'', ''bmp'', ''gif'', ''tiff'',
                           ''svg'', ''webp'', ''x-icon'']"
    then have "literal subtype \<in> set [literal ''png'', literal ''jpg'', literal ''jpeg'',
       literal ''heic'', literal ''bmp'', literal ''gif'', literal ''tiff'', literal ''svg'',
       literal ''webp'', literal ''x-icon'',
       literal ''vnd'' @ [AnyChar] @ literal ''microsoft'' @ [AnyChar] @ literal ''icon'']"
      by auto
    moreover have "matchesAt (literal subtype) r"
      using r by (simp add: matchesAt_literal)
    ultimately show ?L by blast
  next
    assume "\<exists>a b. subtype = ''vnd'' @ [a] @ ''microsoft'' @ [b] @ ''icon'' \<and>
          a \<noteq> CHR 0x0A \<and> a \<noteq> CHR 0x0D \<and> b \<noteq> CHR 0x0A \<and> b \<noteq> CHR 0x0D"
    then obtain a b where "subtype = ''vnd'' @ [a] @ ''microsoft'' @ [b] @ ''icon''"
      "a \<noteq> CHR 0x0A" "a \<noteq> CHR 0x0D" "b \<noteq> CHR 0x0A" "b \<noteq> CHR 0x0D"
      by blast
    with r have "matchesAt
        (literal ''vnd'' @ [AnyChar] @ literal ''microsoft'' @ [AnyChar] @ literal ''icon'') r"
      by (simp add: matchesAt_literal_append matchesAt_literal matchesAt_AnyChar)
    then show ?L by simp
  qed
qed

lemma isValidImageType_contains:
  "isValidImageType t \<longleftrightarrow>
     (\<exists>pre subtype suf. t = pre @ ''image/'' @ subtype @ suf \<and>
        (subtype \<in> set [''png'', ''jpg'', ''jpeg'', ''heic'', ''bmp'', ''gif'', ''tiff'', ''svg'',
                         ''webp'', ''x-icon''] \<or>
         (\<exists>a b. subtype = ''vnd'' @ [a] @ ''microsoft'' @ [b] @ ''icon'' \<and>
            a \<noteq> CHR 0x0A \<and> a \<noteq> CHR 0x0D \<and> b \<noteq> CHR 0x0A \<and> b \<noteq> CHR 0x0D)))"
proof -
  let ?subs = "[literal ''png'', literal ''jpg'', literal ''jpeg'', literal ''heic'',
       literal ''bmp'', literal ''gif'', literal ''tiff'', literal ''svg'', literal ''webp'',
       literal ''x-icon'',
       literal ''vnd'' @ [AnyChar] @ literal ''microsoft'' @ [AnyChar] @ literal ''icon'']"
  have "isValidImageType t \<longleftrightarrow>
      (\<exists>pre rest. t = pre @ rest \<and> (\<exists>q \<in> set ?subs. matchesAt (literal ''image/'' @ q) rest))"
    by (simp only: isValidImageType_def regexTest_iff imageTypePattern_def set_map bex_simps)
  also have "\<dots> \<longleftrightarrow> (\<exists>pre r. t = pre @ ''image/'' @ r \<and> (\<exists>q \<in> set ?subs. matchesAt q r))"
    by (simp only: matchesAt_literal_append) blast
  also have "\<dots> \<longleftrightarrow> (\<exists>pre subtype suf. t = pre @ ''image/'' @ subtype @ suf \<and>
        (subtype \<in> set [''png'', ''jpg'', ''jpeg'', ''heic'', ''bmp'', ''gif'', ''tiff'', ''svg'',
                         ''webp'', ''x-icon''] \<or>
         (\<exists>a b. subtype = ''vnd'' @ [a] @ ''microsoft'' @ [b] @ ''icon'' \<and>
            a \<noteq> CHR 0x0A \<and> a \<noteq> CHR 0x0D \<and> b \<noteq> CHR 0x0A \<and> b \<noteq> CHR 0x0D)))"
    by (simp only: subtype_alternatives) blast
  finally show ?thesis .
qed

lemma loadImageFromArrayBuffer_decodes:
  "imageType \<noteq> Some ''image/svg+xml'' \<Longrightarrow>
   take 2 (snd (loadImageFromArrayBuffer br arrayBuffer opts imageType))
     = [CreateObjectURL \<lparr>blobParts = arrayBuffer, blobType = orElse imageType []\<rparr>,
        LoadImage (createObjectURL br \<lparr>blobParts = arrayBuffer, blobType = orElse imageType []\<rparr>)]"
  by (simp add: loadImageFromArrayBuffer_def Let_def logged_def split: sum.splits)

text \<open>
  Claim C8, as the code has it. With \<^verbatim>\<open>checkImageType\<close> enabled, a file is handed on to
  be loaded exactly when its type, which the File API has put in lower case, contains at
  any index \<^verbatim>\<open>image/\<close> followed by one of \<^verbatim>\<open>png\<close>, \<^verbatim>\<open>jpg\<close>, \<^verbatim>\<open>jpeg\<close>, \<^verbatim>\<open>heic\<close>,
  \<^verbatim>\<open>bmp\<close>, \<^verbatim>\<open>gif\<close>, \<^verbatim>\<open>tiff\<close>, \<^verbatim>\<open>svg\<close>, \<^verbatim>\<open>webp\<close>, \<^verbatim>\<open>x-icon\<close> or
  \<^verbatim>\<open>vnd.microsoft.icon\<close>, where each of the two dots stands for any character but a
  line terminator: the match is not anchored at the start. Every other type fails with
  the invalid image type error before any browser call; a type that passes and is not
  \<^verbatim>\<open>image/svg+xml\<close> has its bytes given to an image element to decode. A file declared
  \<^verbatim>\<open>IMAGE/PNG\<close> passes, since its type reads \<^verbatim>\<open>image/png\<close>.
\<close>

theorem loadImageFile_type_check:
  "truthyFlag (checkImageType_l opts) \<longrightarrow>
     (if \<exists>pre subtype suf. fileType file = pre @ ''image/'' @ subtype @ suf \<and>
           (subtype \<in> set [''png'', ''jpg'', ''jpeg'', ''heic'', ''bmp'', ''gif'', ''tiff'',
                            ''svg'', ''webp'', ''x-icon''] \<or>
            (\<exists>a b. subtype = ''vnd'' @ [a] @ ''microsoft'' @ [b] @ ''icon'' \<and>
               a \<noteq> CHR 0x0A \<and> a \<noteq> CHR 0x0D \<and> b \<noteq> CHR 0x0A \<and> b \<noteq> CHR 0x0D))
      then loadImageFile br file opts
             = loadImageFromArrayBuffer br (fileBytes file) opts (Some (fileType file)) \<and>
           (fileType file \<noteq> ''image/svg+xml'' \<longrightarrow>
              take 2 (snd (loadImageFile br file opts))
                = [CreateObjectURL \<lparr>blobParts = fileBytes file, blobType = fileType file\<rparr>,
                   LoadImage (createObjectURL br
                     \<lparr>blobParts = fileBytes file, blobType = fileType file\<rparr>)])
      else loadImageFile br file opts = (Inl InvalidImageTypeError, []))"
proof
  assume check: "truthyFlag (checkImageType_l opts)"
  show "if \<exists>pre subtype suf. fileType file = pre @ ''image/'' @ subtype @ suf \<and>
           (subtype \<in> set [''png'', ''jpg'', ''jpeg'', ''heic'', ''bmp'', ''gif'', ''tiff'',
                            ''svg'', ''webp'', ''x-icon''] \<or>
            (\<exists>a b. subtype = ''vnd'' @ [a] @ ''microsoft'' @ [b] @ ''icon'' \<and>
               a \<noteq> CHR 0x0A \<and> a \<noteq> CHR 0x0D \<and> b \<noteq> CHR 0x0A \<and> b \<noteq> CHR 0x0D))
      then loadImageFile br file opts
             = loadImageFromArrayBuffer br (fileBytes file) opts (Some (fileType file)) \<and>
           (fileType file \<noteq> ''image/svg+xml'' \<longrightarrow>
              take 2 (snd (loadImageFile br file opts))
                = [CreateObjectURL \<lparr>blobParts = fileBytes file, blobType = fileType file\<rparr>,
                   LoadImage (createObjectURL br
                     \<lparr>blobParts = fileBytes file, blobType = fileType file\<rparr>)])
      else loadImageFile br file opts = (Inl InvalidImageTypeError, [])"
  proof (cases "isValidImageType (fileType file)")
    case True
    then have eq: "loadImageFile br file opts
        = loadImageFromArrayBuffer br (fileBytes file) opts (Some (fileType file))"
      using check
      by (simp add: loadImageFile_def checkImageTypeAndLoadImageFromArrayBuffer_def)
    have "fileType file \<noteq> ''image/svg+xml'' \<Longrightarrow>
        take 2 (snd (loadImageFile br file opts))
          = [CreateObjectURL \<lparr>blobParts = fileBytes file, blobType = fileType file\<rparr>,
             LoadImage (createObjectURL br
               \<lparr>blobParts = fileBytes file, blobType = fileType file\<rparr>)]"
      using loadImageFromArrayBuffer_decodes [of "Some (fileType file)" br "fileBytes file" opts]
      by (simp add: eq orElse_def)
    with eq True show ?thesis
      by (simp only: isValidImageType_contains [symmetric] if_True) simp
  next
    case False
    then have "loadImageFile br file opts = (Inl InvalidImageTypeError, [])"
      using check
      by (simp add: loadImageFile_def checkImageTypeAndLoadImageFromArrayBuffer_def)
    with False show ?thesis
      by (simp only: isValidImageType_contains [symmetric] if_False)
  qed
qed

theorem loadImageFile_type_check_witness:
  "fileType \<lparr>fileBytes = [137, 80], declaredType = ''IMAGE/PNG''\<rparr> = ''image/png'' \<and>
   take 2 (snd (loadImageFile exampleBrowser
      \<lparr>fileBytes = [137, 80], declaredType = ''IMAGE/PNG''\<rparr>
      \<lparr>format_l = None, checkImageType_l = Some True, canvasRotation_l = None,
       containWithinAspectRatio_l = None, aspectRatio_l = None\<rparr>))
     = [CreateObjectURL \<lparr>blobParts = [137, 80], blobType = ''image/png''\<rparr>,
        LoadImage ''blob:image/png''] \<and>
   loadImageFile exampleBrowser \<lparr>fileBytes = [37, 80], declaredType = ''application/pdf''\<rparr>
      \<lparr>format_l = None, checkImageType_l = Some True, canvasRotation_l = None,
       containWithinAspectRatio_l = None, aspectRatio_l = None\<rparr>
     = (Inl InvalidImageTypeError, [])"
proof -
  define opts where "opts = \<lparr>format_l = None, checkImageType_l = Some True,
    canvasRotation_l = None, containWithinAspectRatio_l = None, aspectRatio_l = None\<rparr>"
  define png where "png = \<lparr>fileBytes = [137, 80], declaredType = ''IMAGE/PNG''\<rparr>"
  define pdf where "pdf = \<lparr>fileBytes = [37, 80], declaredType = ''application/pdf''\<rparr>"
  have check: "truthyFlag (checkImageType_l opts)"
    by (simp add: opts_def truthyFlag_def)
  have types: "fileType png = ''image/png''" "fileType pdf = ''application/pdf''"
    by (simp_all add: png_def pdf_def fileType_def printableAscii_def asciiLower_def)
  have valid: "isValidImageType (fileType png)"
    unfolding types by (simp add: isValidImageType_def imageTypePattern_def literal_def)
  have invalid: "\<not> isValidImageType (fileType pdf)"
    unfolding types by (simp add: isValidImageType_def imageTypePattern_def literal_def)
  note accept = loadImageFile_type_check [of opts png exampleBrowser, THEN mp, OF check,
      folded isValidImageType_contains]
  note refuse = loadImageFile_type_check [of opts pdf exampleBrowser, THEN mp, OF check,
      folded isValidImageType_contains]
  have "fileType png \<noteq> ''image/svg+xml''"
    by (simp add: types)
  from accept [unfolded if_P [OF valid], THEN conjunct2, THEN mp, OF this]
  have first: "take 2 (snd (loadImageFile exampleBrowser png opts))
        = [CreateObjectURL \<lparr>blobParts = [137, 80], blobType = ''image/png''\<rparr>,
           LoadImage ''blob:image/png'']"
    unfolding types by (simp add: png_def exampleBrowser_def)
  from refuse [unfolded if_not_P [OF invalid]]
  have second: "loadImageFile exampleBrowser pdf opts = (Inl InvalidImageTypeError, [])" .
  from first second types(1) show ?thesis
    unfolding opts_def png_def pdf_def by simp
qed

text \<open>
  The claim as the specification words it fails where it calls the match a prefix match:
  the type \<^verbatim>\<open>text/ximage/png\<close> starts with none of the listed types, and the file is not
  refused but decoded.
\<close>

theorem loadImageFile_match_not_anchored:
  "fileType \<lparr>fileBytes = [137, 80], declaredType = ''text/ximage/png''\<rparr>
     = ''text/ximage/png'' \<and>
   take 6 (fileType \<lparr>fileBytes = [137, 80], declaredType = ''text/ximage/png''\<rparr>)
     \<noteq> ''image/'' \<and>
   fst (loadImageFile exampleBrowser
      \<lparr>fileBytes = [137, 80], declaredType = ''text/ximage/png''\<rparr>
      \<lparr>format_l = None, checkImageType_l = Some True, canvasRotation_l = None,
       containWithinAspectRatio_l = None, aspectRatio_l = None\<rparr>)
     \<noteq> Inl InvalidImageTypeError \<and>
   take 2 (snd (loadImageFile exampleBrowser
      \<lparr>fileBytes = [137, 80], declaredType = ''text/ximage/png''\<rparr>
      \<lparr>format_l = None, checkImageType_l = Some True, canvasRotation_l = None,
       containWithinAspectRatio_l = None, aspectRatio_l = None\<rparr>))
     = [CreateObjectURL \<lparr>blobParts = [137, 80], blobType = ''text/ximage/png''\<rparr>,
        LoadImage ''blob:text/ximage/png'']"
proof -
  define opts where "opts = \<lparr>format_l = None, checkImageType_l = Some True,
    canvasRotation_l = None, containWithinAspectRatio_l = None, aspectRatio_l = None\<rparr>"
  define odd where "odd = \<lparr>fileBytes = [137, 80], declaredType = ''text/ximage/png''\<rparr>"
  have type: "fileType odd = ''text/ximage/png''"
    by (simp add: odd_def fileType_def printableAscii_def asciiLower_def)
  have valid: "isValidImageType (fileType odd)"
    unfolding type by (simp add: isValidImageType_def imageTypePattern_def literal_def)
  have eq: "loadImageFile exampleBrowser odd opts
      = loadImageFromArrayBuffer exampleBrowser (fileBytes odd) opts (Some (fileType odd))"
    using valid
    by (simp add: loadImageFile_def checkImageTypeAndLoadImageFromArrayBuffer_def opts_def
        truthyFlag_def)
  have decoded: "fst (loadImageFile exampleBrowser odd opts) \<noteq> Inl InvalidImageTypeError"
    unfolding eq type
    by (simp add: loadImageFromArrayBuffer_def transformImageFromArrayBuffer_def
        transformLoadedImage_def exampleBrowser_def logged_def Let_def orElse_def truthyFlag_def
        opts_def)
  have "Some (fileType odd) \<noteq> Some ''image/svg+xml''"
    by (simp add: type)
  note loadImageFromArrayBuffer_decodes [OF this, of exampleBrowser "fileBytes odd" opts,
      unfolded type]
  then have trace: "take 2 (snd (loadImageFile exampleBrowser odd opts))
     = [CreateObjectURL \<lparr>blobParts = [137, 80], blobType = ''text/ximage/png''\<rparr>,
        LoadImage ''blob:text/ximage/png'']"
    unfolding eq type by (simp add: orElse_def odd_def exampleBrowser_def)
  from type decoded trace show ?thesis
    unfolding opts_def odd_def by simp
qed

subsection \<open>When the original is reused\<close>




text \<open>
  A canvas does not keep a fractional size: an original of \<open>100 \<times> 10\<close> contained
  within the ratio 3 has the transformed size \<open>100 \<times> 100/3\<close>, and the canvas of a
  browser that keeps the whole part is \<open>100 \<times> 33\<close>, drawn on from its centre
  \<open>(50, 16.5)\<close>.
\<close>

lemma transformLoadedImage_canvas_size:
  "getTransformedSize \<lparr>width = 100, height = 10\<rparr> \<lparr>rotate_e = 0, flip_e = False\<rparr>
      \<lparr>format_l = None, checkImageType_l = None, canvasRotation_l = None,
       containWithinAspectRatio_l = Some True, aspectRatio_l = Some 3\<rparr>
     = \<lparr>width = 100, height = 100 / 3\<rparr> \<and>
   hd (snd (transformLoadedImage exampleBrowser
      \<lparr>original_pl = (original exampleImage)\<lparr>size_v := \<lparr>width = 100, height = 10\<rparr>\<rparr>,
       exifTransform_pl = \<lparr>rotate_e = 0, flip_e = False\<rparr>\<rparr>
      \<lparr>format_l = None, checkImageType_l = None, canvasRotation_l = None,
       containWithinAspectRatio_l = Some True, aspectRatio_l = Some 3\<rparr> False))
     = ToBlob
         \<lparr>canvasWidth = 100, canvasHeight = 33,
          context2d =
            Some \<lparr>setTransform = (1, 0, 0, 1, 50, 33 / 2),
                  rotate_c = 0,
                  drawImage = (image_v (original exampleImage), - 50, - 5)\<rparr>\<rparr>
         ''image/png''"
  by (simp add: transformLoadedImage_def exampleBrowser_def exampleImage_def Let_def orElse_def
      truthyFlag_def getTransformedSize_def js_rem_def)

end
